theory Spec2Isabelle
  imports Complex_Main "HOL-Library.Word"
begin

unbundle bit_operations_syntax

section \<open>Numbers, errors and library functions\<close>

text \<open>
  The reader works on Python floats and numpy \<open>float64\<close> values.  They are embedded in
  \<^typ>\<open>real\<close>: rounding is left out, and the places where the source can produce a
  \<open>nan\<close> or raise are branches of the model.  A \<open>nan\<close> is \<open>None\<close> where a
  number can be one.  The pixel coordinates that OpenCV's line detector returns are
  numpy \<open>int32\<close> numbers: they are integers (\<^typ>\<open>int\<close>), the arithmetic among them
  wraps around at 32 bits, and they are coerced to reals without loss where the source
  mixes them with floats.
\<close>

datatype error = ZeroDivisionError | IndexError | ValueError | TypeError

text \<open>The value that numpy's \<open>int32\<close> arithmetic keeps of an integer result.\<close>

definition int32 :: "int \<Rightarrow> int" where
  "int32 v = (v + 2 ^ 31) mod 2 ^ 32 - 2 ^ 31"

text \<open>\<open>int(v)\<close> on a float: truncation towards zero.\<close>

definition py_int :: "real \<Rightarrow> int" where
  "py_int v = (if 0 \<le> v then \<lfloor>v\<rfloor> else \<lceil>v\<rceil>)"

text \<open>
  \<open>np.arctan2(y, x)\<close>: the angle of the point \<open>(x, y)\<close> in \<open>(-pi, pi]\<close>, and \<open>0\<close>
  at the origin.
\<close>

definition arctan2 :: "real \<Rightarrow> real \<Rightarrow> real" where
  "arctan2 y x =
     (if 0 < x then arctan (y / x)
      else if x < 0 then (if 0 \<le> y then arctan (y / x) + pi else arctan (y / x) - pi)
      else if 0 < y then pi / 2
      else if y < 0 then - (pi / 2)
      else 0)"

text \<open>
  \<open>np.average(a, weights=w)\<close> on two lists: the weights' sum is computed first and a
  zero sum raises \<open>ZeroDivisionError\<close>; lists of different lengths raise \<open>TypeError\<close>.
  With a \<open>nan\<close> among the weights their sum is \<open>nan\<close>, which is not zero, and so is
  the average.
\<close>

definition np_average :: "real list \<Rightarrow> real option list \<Rightarrow> error + real option" where
  "np_average a weights =
     (if length a \<noteq> length weights then Inl TypeError
      else (case those weights of
              None \<Rightarrow> Inr None
            | Some ws \<Rightarrow>
                let scl = sum_list ws
                in if scl = 0 then Inl ZeroDivisionError
                   else Inr (Some (sum_list (map2 (*) a ws) / scl))))"

text \<open>
  \<open>np.median\<close> of a list: the middle element of the sorted list, the mean of the two
  middle ones when the length is even, and \<open>nan\<close> (here \<open>None\<close>) on the empty list.
\<close>

definition np_median :: "real list \<Rightarrow> real option" where
  "np_median vs =
     (let s = sort vs; n = length vs
      in if n = 0 then None
         else if odd n then Some (s ! (n div 2))
         else Some ((s ! (n div 2 - 1) + s ! (n div 2)) / 2))"

text \<open>\<open>np.mean\<close> of a non-empty list; the empty list gives \<open>nan\<close> (\<open>None\<close>).\<close>

definition np_mean :: "real list \<Rightarrow> real option" where
  "np_mean vs = (if vs = [] then None else Some (sum_list vs / real (length vs)))"

section \<open>Geometry of the needle (\<open>_image_processing.py\<close>)\<close>

text \<open>
  \<open>dist_2_pts\<close> is called in two ways.  Between the centre of the dial and an end point
  of a segment an argument is a float, and so is all of the arithmetic.
\<close>

definition dist_2_pts :: "real \<Rightarrow> real \<Rightarrow> real \<Rightarrow> real \<Rightarrow> real" where
  "dist_2_pts x1 y1 x2 y2 = sqrt ((x2 - x1)\<^sup>2 + (y2 - y1)\<^sup>2)"

text \<open>
  Between the two end points of a segment all four arguments are \<open>int32\<close>: the
  differences, their squares and the sum of the squares wrap around, and the power
  \<open>0.5\<close> of the result is a float, \<open>nan\<close> when the result is negative.
\<close>

definition dist_2_pts_int32 :: "int \<Rightarrow> int \<Rightarrow> int \<Rightarrow> int \<Rightarrow> real option" where
  "dist_2_pts_int32 x1 y1 x2 y2 =
     (let s = int32 (int32 ((int32 (x2 - x1))\<^sup>2) + int32 ((int32 (y2 - y1))\<^sup>2))
      in if s < 0 then None else Some (sqrt (real_of_int s)))"

text \<open>A line segment as the line detector returns it: \<open>(x1, y1, x2, y2)\<close>.\<close>

type_synonym line = "int \<times> int \<times> int \<times> int"

text \<open>The four radius fractions that bound the two bands of valid needle end points.\<close>

record bounds =
  r_inner_min :: real
  r_inner_max :: real
  r_outer_min :: real
  r_outer_max :: real

text \<open>
  The body of the inner loop of \<open>filter_lines_for_needle\<close>: one segment is measured and
  appended to \<open>final_line_list\<close> when it passes.  A length that is \<open>nan\<close> is not
  below \<open>min_length * r\<close>, so that segment goes on to the test of the bands.  The
  overlay drawn on \<open>img\<close> has no part in the result and is left out.
\<close>

definition filter_line ::
  "real \<Rightarrow> real \<Rightarrow> real \<Rightarrow> real \<Rightarrow> bounds \<Rightarrow> line \<Rightarrow> line list \<Rightarrow> line list" where
  "filter_line x y r min_length b l final_line_list =
     (case l of (x1, y1, x2, y2) \<Rightarrow>
        let len = dist_2_pts_int32 x1 y1 x2 y2
        in if (case len of None \<Rightarrow> False | Some v \<Rightarrow> v < min_length * r)
           then final_line_list
           else
             let diff1 = dist_2_pts x y (real_of_int x1) (real_of_int y1);
                 diff2 = dist_2_pts x y (real_of_int x2) (real_of_int y2);
                 (diff1, diff2) = (if diff1 > diff2 then (diff2, diff1) else (diff1, diff2))
             in if (r_inner_min b * r < diff1 \<and> diff1 < r_inner_max b * r) \<and>
                   (r_outer_min b * r < diff2 \<and> diff2 < r_outer_max b * r)
                then final_line_list @ [(x1, y1, x2, y2)]
                else final_line_list)"

text \<open>
  \<open>lines\<close> has the detector's shape \<open>(N, 1, 4)\<close>: a list of rows, each a list of
  segments.  The two nested \<open>for\<close> loops are two folds.
\<close>

definition filter_lines_for_needle ::
  "line list list \<Rightarrow> real \<Rightarrow> real \<Rightarrow> real \<Rightarrow> real \<Rightarrow> bounds \<Rightarrow> line list" where
  "filter_lines_for_needle lines x y r min_length b =
     fold (\<lambda>row final_line_list. fold (filter_line x y r min_length b) row final_line_list)
       lines []"

text \<open>
  The body of the loop over \<open>final_line_list\<close> in \<open>get_needle_angle\<close>: the angle of one
  segment, taken at the end point that is farther from the centre (the second end
  point unless the first is strictly farther), and wrapped into \<open>[0, 2 pi)\<close>.
\<close>

definition line_angle :: "real \<Rightarrow> real \<Rightarrow> line \<Rightarrow> real" where
  "line_angle x y l =
     (case l of (x1, y1, x2, y2) \<Rightarrow>
        let dist_pt_1 = dist_2_pts x y (real_of_int x1) (real_of_int y1);
            dist_pt_2 = dist_2_pts x y (real_of_int x2) (real_of_int y2);
            ang = (if dist_pt_1 > dist_pt_2
                   then arctan2 (- (real_of_int x1 - x)) (real_of_int y1 - y)
                   else arctan2 (- (real_of_int x2 - x)) (real_of_int y2 - y))
        in if ang < 0 then ang + 2 * pi else ang)"

text \<open>The length of the segment as the loop computes it, the weight of its angle.\<close>

definition line_length :: "line \<Rightarrow> real option" where
  "line_length l = (case l of (x1, y1, x2, y2) \<Rightarrow> dist_2_pts_int32 x1 y1 x2 y2)"

definition angle_step ::
  "real \<Rightarrow> real \<Rightarrow> line \<Rightarrow> real list \<times> real option list \<Rightarrow> real list \<times> real option list" where
  "angle_step x y l acc =
     (case acc of (angles, lengths) \<Rightarrow> (angles @ [line_angle x y l], lengths @ [line_length l]))"

text \<open>
  What \<open>get_needle_angle\<close> returns in place of an angle when no needle is resolved: one of
  three messages.
\<close>

datatype needle_msg =
  No_lines_detected
  | Too_many_candidates nat
  | No_lines_after_filtering

text \<open>
  \<open>get_needle_angle\<close> from the answer of the line detector onwards.  The call to
  \<open>filter_lines_for_needle\<close> leaves \<open>min_length\<close> at its default \<open>0.2\<close>.  The angle
  that is returned can be \<open>nan\<close>.
\<close>

definition needle_angle_of_lines ::
  "line list list option \<Rightarrow> real \<Rightarrow> real \<Rightarrow> real \<Rightarrow> bounds \<Rightarrow>
     error + (needle_msg + real option)" where
  "needle_angle_of_lines lines x y r b =
     (case lines of
        None \<Rightarrow> Inr (Inl No_lines_detected)
      | Some ls \<Rightarrow>
          let final_line_list = filter_lines_for_needle ls x y r (2 / 10) b
          in if length final_line_list > 75
             then Inr (Inl (Too_many_candidates (length final_line_list)))
             else if length final_line_list \<noteq> 0
             then (case fold (angle_step x y) final_line_list ([], []) of
                     (angles, lengths) \<Rightarrow>
                       (case np_average angles lengths of
                          Inl e \<Rightarrow> Inl e
                        | Inr final_angle_rad \<Rightarrow> Inr (Inr final_angle_rad)))
             else Inr (Inl No_lines_after_filtering))"

section \<open>Conversion of the angle (\<open>_analog_gauge_reader.py\<close>)\<close>

text \<open>
  \<open>angle2value\<close> on the floats of its signature.  There is no test of \<open>angle_range\<close>
  before the division: on Python floats a zero divisor raises \<open>ZeroDivisionError\<close>.
\<close>

definition angle2value :: "real \<Rightarrow> real \<Rightarrow> real \<Rightarrow> real \<Rightarrow> real \<Rightarrow> error + real" where
  "angle2value min_angle max_angle min_value max_value angle =
     (let angle_range = max_angle - min_angle;
          value_range = max_value - min_value
      in if angle_range = 0 then Inl ZeroDivisionError
         else Inr (min_value + ((angle - min_angle) * value_range) / angle_range))"

section \<open>Frames, arrays and the OpenCV capabilities\<close>

text \<open>
  A grayscale frame is a numpy array of bytes: a list of rows.  Arrays are objects that
  several names can refer to, and OpenCV's drawing functions write into the array they
  are given, so arrays live in a store and are passed by address.  An address is an
  index into the store; a new array is put at the end.
\<close>

type_synonym image = "8 word list list"
type_synonym addr = nat
type_synonym store = "image list"

definition load :: "store \<Rightarrow> addr \<Rightarrow> image" where
  "load st a = (if a < length st then st ! a else [])"

definition alloc :: "store \<Rightarrow> image \<Rightarrow> store \<times> addr" where
  "alloc st img = (st @ [img], length st)"

text \<open>\<open>gray.shape[:2]\<close>: height and width.\<close>

definition shape :: "image \<Rightarrow> nat \<times> nat" where
  "shape img = (length img, (case img of [] \<Rightarrow> 0 | row # _ \<Rightarrow> length row))"

text \<open>\<open>255*np.ones_like(gray)\<close>: a new array of the same shape, every pixel 255.\<close>

definition ones_like_255 :: "image \<Rightarrow> image" where
  "ones_like_255 img = map (\<lambda>row. map (\<lambda>_. 255) row) img"

text \<open>\<open>cv2.bitwise_or\<close> of two arrays of one shape: a new array, the pixels or-ed.\<close>

definition bitwise_or :: "image \<Rightarrow> image \<Rightarrow> image" where
  "bitwise_or a b = map2 (\<lambda>ra rb. map2 (\<lambda>p q. p OR q) ra rb) a b"

datatype thresh_type = THRESH_BINARY_INV | THRESH_TOZERO | THRESH_BINARY_OTSU

text \<open>A detected circle \<open>(x, y, r)\<close>.\<close>

type_synonym circle3 = "real \<times> real \<times> real"

text \<open>
  The functions of OpenCV that the reader calls are parameters of the model: what they
  compute from the pixels is not part of this program.  Each field gives the array a
  call leaves behind or returns, or the detector's answer (\<open>None\<close> when nothing is
  found).  \<open>cv2_circle img centre radius colour aa\<close> is the content of \<open>img\<close> after a
  filled circle has been drawn on it; \<open>cv2_HoughCircles\<close> answers with an array of
  shape \<open>(1, k, 3)\<close>, \<open>cv2_HoughLinesP\<close> with one of shape \<open>(N, 1, 4)\<close>.  The calls are
  taken to succeed: OpenCV's own checks of its arguments are not modelled.
\<close>

record cv2 =
  cv2_circle :: "image \<Rightarrow> int \<times> int \<Rightarrow> int \<Rightarrow> 8 word \<Rightarrow> bool \<Rightarrow> image"
  cv2_medianBlur :: "image \<Rightarrow> int \<Rightarrow> image"
  cv2_threshold :: "image \<Rightarrow> int \<Rightarrow> thresh_type \<Rightarrow> image"
  cv2_adaptiveThreshold :: "image \<Rightarrow> image"
  cv2_GaussianBlur :: "image \<Rightarrow> int \<Rightarrow> image"
  cv2_Canny :: "image \<Rightarrow> image"
  cv2_HoughLinesP :: "image \<Rightarrow> int \<Rightarrow> line list list option"
  cv2_HoughCircles :: "image \<Rightarrow> int \<Rightarrow> int \<Rightarrow> circle3 list list option"

datatype ThresholdMode = Mode_none | Mode_binary | Mode_gray | Mode_gauss | Mode_otsu

text \<open>
  \<open>apply_threshold\<close>: every OpenCV call returns a new array; with the enumeration's
  member \<open>none\<close> no branch is taken and the input array itself is returned.  The
  number \<open>ret\<close> that is returned beside the array is not used by the caller and is left
  out.
\<close>

definition apply_threshold ::
  "cv2 \<Rightarrow> store \<Rightarrow> addr \<Rightarrow> ThresholdMode option \<Rightarrow> int \<Rightarrow> int \<Rightarrow> store \<times> addr" where
  "apply_threshold caps st gray threshold_mode threshold blur_size =
     (if threshold_mode = None \<or> threshold_mode = Some Mode_binary
      then alloc st (cv2_threshold caps (load st gray) threshold THRESH_BINARY_INV)
      else if threshold_mode = Some Mode_gray
      then alloc st (cv2_threshold caps (load st gray) threshold THRESH_TOZERO)
      else if threshold_mode = Some Mode_gauss
      then alloc st (cv2_adaptiveThreshold caps (load st gray))
      else if threshold_mode = Some Mode_otsu
      then (case alloc st (cv2_GaussianBlur caps (load st gray) blur_size) of
              (st1, gray1) \<Rightarrow> alloc st1 (cv2_threshold caps (load st1 gray1) 0 THRESH_BINARY_OTSU))
      else (st, gray))"

text \<open>
  \<open>get_needle_angle\<close>.  The first \<open>cv2.circle\<close> draws on the array the caller passed;
  the mask is a new array, and \<open>cv2.bitwise_or\<close> returns a new array to which the local
  name \<open>gray\<close> is bound from then on.  The result is the store, the status (message
  or angle) and the address of the image after thresholding; the overlay image with the
  drawn lines is left out.
\<close>

definition get_needle_angle ::
  "cv2 \<Rightarrow> store \<Rightarrow> addr \<Rightarrow> real \<Rightarrow> real \<Rightarrow> real \<Rightarrow> int \<Rightarrow> bool \<Rightarrow> int \<Rightarrow> int \<Rightarrow>
     ThresholdMode option \<Rightarrow> bounds \<Rightarrow>
     store \<times> (error + (needle_msg + real option)) \<times> addr" where
  "get_needle_angle caps st gray x y r threshold use_filter blur_size min_line_length
       threshold_mode b =
     (let st1 = st[gray := cv2_circle caps (load st gray) (py_int x, py_int y)
                             (py_int (r * r_inner_min b)) 255 True]
      in case alloc st1 (ones_like_255 (load st1 gray)) of (st2, mask') \<Rightarrow>
         let st3 = st2[mask' := cv2_circle caps (load st2 mask') (py_int x, py_int y)
                                 (py_int (r * r_outer_max b)) 0 False]
         in case alloc st3 (bitwise_or (load st3 gray) (load st3 mask')) of (st4, gray1) \<Rightarrow>
            case apply_threshold caps st4 gray1 threshold_mode threshold blur_size of
              (st5, gray2) \<Rightarrow>
            let after_threshold = gray2
            in case (if use_filter
                     then (case alloc st5 (cv2_medianBlur caps (load st5 gray2) blur_size) of
                             (st6, gray3) \<Rightarrow>
                           case alloc st6 (cv2_Canny caps (load st6 gray3)) of
                             (st7, gray4) \<Rightarrow>
                           alloc st7 (cv2_GaussianBlur caps (load st7 gray4) blur_size))
                     else (st5, gray2)) of
                 (st8, gray5) \<Rightarrow>
                   (st8,
                    needle_angle_of_lines (cv2_HoughLinesP caps (load st8 gray5) min_line_length)
                      x y r b,
                    after_threshold))"

text \<open>
  What \<open>detect_dial\<close> returns for \<open>x, y, r\<close>: three times \<open>None\<close>, three numbers, or
  three \<open>nan\<close> (the mean over an empty row of circles, which the detector does not
  return).
\<close>

datatype dial_estimate = No_dial | Dial circle3 | Dial_nan

text \<open>
  The first half of \<open>detect_dial\<close>, up to the answer of the circle detector.  The
  blurred image is a new array under the local name \<open>gray\<close>; the caller's array is
  only read, so the function takes its content.
\<close>

definition find_circles ::
  "cv2 \<Rightarrow> image \<Rightarrow> bool \<Rightarrow> int \<Rightarrow> real \<Rightarrow> real \<Rightarrow> circle3 list list option" where
  "find_circles caps gray use_filter blur_size min_diameter max_diameter =
     (case shape gray of (height, width) \<Rightarrow>
        let gray1 = (if use_filter then cv2_medianBlur caps gray blur_size else gray);
            r_max = real (min height width) * (5 / 10)
        in cv2_HoughCircles caps gray1 (py_int (r_max * min_diameter))
             (py_int (r_max * max_diameter)))"

text \<open>
  \<open>detect_dial\<close>.  \<open>np.mean(circles, axis=1).flatten()\<close> has three entries per row of
  \<open>circles\<close>, and unpacking it into \<open>x, y, r\<close> raises \<open>ValueError\<close> unless there is
  exactly one row.  The debug image is left out.
\<close>

definition detect_dial ::
  "cv2 \<Rightarrow> image \<Rightarrow> bool \<Rightarrow> int \<Rightarrow> real \<Rightarrow> real \<Rightarrow> error + dial_estimate" where
  "detect_dial caps gray use_filter blur_size min_diameter max_diameter =
     (case find_circles caps gray use_filter blur_size min_diameter max_diameter of
        None \<Rightarrow> Inr No_dial
      | Some circles \<Rightarrow>
          if length circles = 0 then Inr No_dial
          else (case circles of
                  [row] \<Rightarrow>
                    (case (np_mean (map fst row), np_mean (map (\<lambda>c. fst (snd c)) row),
                           np_mean (map (\<lambda>c. snd (snd c)) row)) of
                       (Some x, Some y, Some r) \<Rightarrow> Inr (Dial (x, y, r))
                     | _ \<Rightarrow> Inr Dial_nan)
                | _ \<Rightarrow> Inl ValueError))"

section \<open>The main loop (\<open>main\<close> in \<open>_analog_gauge_reader.py\<close>)\<close>

text \<open>
  A warning limit is a float that may be infinite: the command line's defaults are
  \<open>-inf\<close> and \<open>inf\<close>.  The keyword default of \<open>main\<close> itself is \<open>None\<close>, on which the
  comparison with the median raises \<open>TypeError\<close>.
\<close>

datatype bound = Neg_inf | Finite real | Pos_inf

fun le_bound :: "real \<Rightarrow> bound \<Rightarrow> bool" where
  "le_bound v Neg_inf = False"
| "le_bound v (Finite m) = (v \<le> m)"
| "le_bound v Pos_inf = True"

fun ge_bound :: "real \<Rightarrow> bound \<Rightarrow> bool" where
  "ge_bound v Neg_inf = True"
| "ge_bound v (Finite m) = (v \<ge> m)"
| "ge_bound v Pos_inf = False"

text \<open>
  The keyword arguments of \<open>main\<close> that the loop reads.  The scale \<open>(min_angle,
  max_angle, min_value, max_value)\<close> is given as a whole or not at all: the entry point
  refuses anything else before \<open>main\<close> is called.  The two window sizes are
  integers (20 unless \<open>main\<close> is called with others).  The arguments of the sinks
  (HTTP, MQTT, XMPP) and of the drawing are left out with the sinks.
\<close>

record config =
  calibration :: "(real \<times> real \<times> real \<times> real) option"
  min_warn :: "bound option"
  max_warn :: "bound option"
  warn_interval :: real
  warn_no_detections_s :: real
  needle_bounds :: bounds
  threshold :: int
  threshold_mode :: "ThresholdMode option"
  blur_size :: int
  median_filter_dial_position_N :: int
  median_filter_value_N :: int

text \<open>
  The variables that live across iterations of the loop.  \<open>avg\<close> starts as \<open>nan\<close>
  (\<open>None\<close>).
\<close>

record state =
  debug_export_number :: nat
  last_warn_time :: real
  calibration_lst :: "circle3 list"
  values_lst :: "real list"
  avg :: "real option"
  loop_start_time :: real
  last_successful_detection_time :: real

text \<open>
  \<open>time.time()\<close> is read at seven places of an iteration.  What it returns at each of
  them, when the place is reached, is an input of the iteration: at the start of the
  loop body, in the test before the value warning, after the value warning was sent,
  at the reset of the watchdog, in the two tests of the silence watchdog and after its
  warning.
\<close>

record clock =
  now_loop_start :: real
  now_warn_check :: real
  now_warn_sent :: real
  now_detected :: real
  now_silence_check :: real
  now_interval_check :: real
  now_silence_sent :: real

text \<open>
  What \<open>send_warning\<close> is called with: the warning about the median value, or the
  warning that nothing was measured since the given time.
\<close>

datatype alert = Value_warning real | No_measurement real

datatype detection_error = No_circles_found | No_needle needle_msg

datatype outcome = Measured real | Failed detection_error

text \<open>
  \<open>while len(lst) > N: del lst[0]\<close>.  Deleting from the empty list raises
  \<open>IndexError\<close>, which happens when \<open>N\<close> is negative.
\<close>

fun drop_oldest :: "int \<Rightarrow> 'a list \<Rightarrow> error + 'a list" where
  "drop_oldest N [] = (if 0 > N then Inl IndexError else Inr [])"
| "drop_oldest N (v # vs) =
     (if int (length (v # vs)) > N then drop_oldest N vs else Inr (v # vs))"

text \<open>
  The median filter over the dial's position and radius.  A \<open>nan\<close> among the medians
  would make the next statement, \<open>int(x)\<close>, raise \<open>ValueError\<close>.
\<close>

definition median_filter_dial ::
  "int \<Rightarrow> circle3 list \<Rightarrow> circle3 \<Rightarrow> error + (circle3 list \<times> circle3)" where
  "median_filter_dial N lst d =
     (if N > 1
      then (case drop_oldest N (lst @ [d]) of
              Inl e \<Rightarrow> Inl e
            | Inr lst1 \<Rightarrow>
                (case (np_median (map fst lst1), np_median (map (\<lambda>c. fst (snd c)) lst1),
                       np_median (map (\<lambda>c. snd (snd c)) lst1)) of
                   (Some x, Some y, Some r) \<Rightarrow> Inr (lst1, (x, y, r))
                 | _ \<Rightarrow> Inl ValueError))
      else Inr (lst, d))"

text \<open>
  \<open>avg <= min_warn or avg >= max_warn\<close>: the second comparison is evaluated only when
  the first is false, and a comparison with \<open>nan\<close> is false.
\<close>

definition out_of_range :: "real option \<Rightarrow> bound option \<Rightarrow> bound option \<Rightarrow> error + bool" where
  "out_of_range a lo hi =
     (case lo of
        None \<Rightarrow> Inl TypeError
      | Some l \<Rightarrow>
          if (case a of None \<Rightarrow> False | Some v \<Rightarrow> le_bound v l) then Inr True
          else (case hi of
                  None \<Rightarrow> Inl TypeError
                | Some h \<Rightarrow> Inr (case a of None \<Rightarrow> False | Some v \<Rightarrow> ge_bound v h)))"

text \<open>
  The value is stored for the median filter, and the warning about the median is sent
  when it is due.
\<close>

definition store_value :: "config \<Rightarrow> clock \<Rightarrow> state \<Rightarrow> real \<Rightarrow> error + (state \<times> alert list)" where
  "store_value cfg clk s v =
     (case drop_oldest (median_filter_value_N cfg) (values_lst s @ [v]) of
        Inl e \<Rightarrow> Inl e
      | Inr lst \<Rightarrow>
          let s1 = s\<lparr>values_lst := lst\<rparr>
          in if int (length lst) \<ge> median_filter_value_N cfg \<and>
                last_warn_time s1 + warn_interval cfg < now_warn_check clk
             then let s2 = s1\<lparr>avg := np_median lst\<rparr>
                  in (case out_of_range (avg s2) (min_warn cfg) (max_warn cfg) of
                        Inl e \<Rightarrow> Inl e
                      | Inr True \<Rightarrow>
                          Inr (s2\<lparr>last_warn_time := now_warn_sent clk\<rparr>,
                               (case avg s2 of None \<Rightarrow> [] | Some m \<Rightarrow> [Value_warning m]))
                      | Inr False \<Rightarrow> Inr (s2, []))
             else Inr (s1, []))"

text \<open>The warning after a long time without a detection.\<close>

definition watchdog :: "config \<Rightarrow> clock \<Rightarrow> state \<Rightarrow> state \<times> alert list" where
  "watchdog cfg clk s =
     (if last_successful_detection_time s + warn_no_detections_s cfg < now_silence_check clk \<and>
         last_warn_time s + warn_interval cfg < now_interval_check clk
      then (s\<lparr>last_warn_time := now_silence_sent clk\<rparr>,
            [No_measurement (last_successful_detection_time s)])
      else (s, []))"

text \<open>
  The body of the \<open>try\<close> statement.  It ends in an exception that leaves the loop
  (\<open>Inl\<close>), in a \<open>DetectionError\<close>, or with the value it has measured and the warnings
  it has sent; in the last two cases the variables are as the body left them.
  \<open>detect_dial\<close> and \<open>get_needle_angle\<close> are called with the defaults the loop leaves
  them.  With three \<open>nan\<close> for the dial, the drawing of the dial raises \<open>ValueError\<close>
  on \<open>int(x)\<close>, and with a \<open>nan\<close> for the angle the drawing of the needle does, on
  \<open>int(x+r*np.sin(-needle_angle))\<close>.  Inside the loop the angle is a numpy number, on which a division by
  zero gives a non-finite value and a warning instead of raising; the model has no
  non-finite values and ends the iteration with the error there.  Drawing and the
  sinks that the value is published to are left out.
\<close>

definition try_body ::
  "cv2 \<Rightarrow> config \<Rightarrow> clock \<Rightarrow> store \<Rightarrow> addr \<Rightarrow> state \<Rightarrow>
     store \<times> (error + state \<times> (detection_error + real \<times> alert list))" where
  "try_body caps cfg clk st gray s =
     (case detect_dial caps (load st gray) True 5 (4 / 10) (9 / 10) of
        Inl e \<Rightarrow> (st, Inl e)
      | Inr No_dial \<Rightarrow> (st, Inr (s, Inl No_circles_found))
      | Inr Dial_nan \<Rightarrow> (st, Inl ValueError)
      | Inr (Dial d) \<Rightarrow>
          (case median_filter_dial (median_filter_dial_position_N cfg) (calibration_lst s) d of
             Inl e \<Rightarrow> (st, Inl e)
           | Inr (lst, (x, y, r)) \<Rightarrow>
               let s1 = s\<lparr>calibration_lst := lst\<rparr>
               in (case get_needle_angle caps st gray x y r (threshold cfg) False (blur_size cfg)
                          10 (threshold_mode cfg) (needle_bounds cfg) of
                     (st1, Inl e, _) \<Rightarrow> (st1, Inl e)
                   | (st1, Inr (Inl msg), _) \<Rightarrow> (st1, Inr (s1, Inl (No_needle msg)))
                   | (st1, Inr (Inr None), _) \<Rightarrow> (st1, Inl ValueError)
                   | (st1, Inr (Inr (Some needle_angle)), _) \<Rightarrow>
                       (case (case calibration cfg of
                                Some (min_angle, max_angle, min_value, max_value) \<Rightarrow>
                                  angle2value min_angle max_angle min_value max_value
                                    (needle_angle * 180 / pi)
                              | None \<Rightarrow> Inr (needle_angle * 180 / pi)) of
                          Inl e \<Rightarrow> (st1, Inl e)
                        | Inr v \<Rightarrow>
                            (case store_value cfg clk s1 v of
                               Inl e \<Rightarrow> (st1, Inl e)
                             | Inr (s2, alerts) \<Rightarrow>
                                 (st1,
                                  Inr (s2\<lparr>last_successful_detection_time := now_detected clk\<rparr>,
                                       Inr (v, alerts))))))))"

text \<open>
  One iteration of the loop on a grayscale frame: the \<open>try\<close> statement with its
  handler for \<open>DetectionError\<close>, then the silence watchdog.  Any other exception ends
  the loop.  The pause before the iteration (\<open>min_measurement_interval\<close>) and the
  delivery of the images to the HTTP server are left out.
\<close>

definition frame ::
  "cv2 \<Rightarrow> config \<Rightarrow> clock \<Rightarrow> store \<Rightarrow> addr \<Rightarrow> state \<Rightarrow>
     error + (state \<times> store \<times> outcome \<times> alert list)" where
  "frame caps cfg clk st gray s =
     (case try_body caps cfg clk st gray (s\<lparr>loop_start_time := now_loop_start clk\<rparr>) of
        (st1, Inl e) \<Rightarrow> Inl e
      | (st1, Inr (s1, Inl derr)) \<Rightarrow>
          (case watchdog cfg clk
                  (s1\<lparr>debug_export_number := (debug_export_number s1 + 1) mod 10\<rparr>) of
             (s2, sent) \<Rightarrow> Inr (s2, st1, Failed derr, sent))
      | (st1, Inr (s1, Inr (v, alerts))) \<Rightarrow>
          (case watchdog cfg clk s1 of
             (s2, sent) \<Rightarrow> Inr (s2, st1, Measured v, alerts @ sent)))"

text \<open>
  The variables before the first iteration; \<open>t0\<close> and \<open>t1\<close> are the two readings of
  \<open>time.time()\<close> there.
\<close>

definition init :: "config \<Rightarrow> real \<Rightarrow> real \<Rightarrow> state" where
  "init cfg t0 t1 =
     \<lparr>debug_export_number = 0, last_warn_time = t0 - warn_interval cfg,
      calibration_lst = [], values_lst = [], avg = None, loop_start_time = 0,
      last_successful_detection_time = t1\<rparr>"

section \<open>Notions of the specification\<close>

text \<open>
  The specification speaks of the distance of two points of the frame and of the length
  of a segment in pixels.  Both are the Euclidean distance of the plane, taken here from
  the library: the distance of the complex numbers that have the points' coordinates.
\<close>

definition pixel_length :: "line \<Rightarrow> real" where
  "pixel_length l =
     (case l of (x1, y1, x2, y2) \<Rightarrow>
        dist (Complex (real_of_int x1) (real_of_int y1)) (Complex (real_of_int x2) (real_of_int y2)))"

definition centre_distance :: "real \<Rightarrow> real \<Rightarrow> int \<Rightarrow> int \<Rightarrow> real" where
  "centre_distance x y xe ye = dist (Complex x y) (Complex (real_of_int xe) (real_of_int ye))"

text \<open>
  The specification's geometric condition on a segment, in its own words: the length is
  at least \<open>min_length * r\<close>, and with \<open>d1\<close> the smaller and \<open>d2\<close> the larger distance
  of an end point from the centre, \<open>d1\<close> lies strictly inside the inner band and \<open>d2\<close>
  strictly inside the outer band.
\<close>

definition qualifies :: "real \<Rightarrow> real \<Rightarrow> real \<Rightarrow> real \<Rightarrow> bounds \<Rightarrow> line \<Rightarrow> bool" where
  "qualifies x y r min_length b l =
     (case l of (x1, y1, x2, y2) \<Rightarrow>
        let d1 = min (centre_distance x y x1 y1) (centre_distance x y x2 y2);
            d2 = max (centre_distance x y x1 y1) (centre_distance x y x2 y2)
        in min_length * r \<le> pixel_length (x1, y1, x2, y2) \<and>
           r_inner_min b * r < d1 \<and> d1 < r_inner_max b * r \<and>
           r_outer_min b * r < d2 \<and> d2 < r_outer_max b * r)"

text \<open>
  A segment is short of the wrap-around when the square of its length is below
  \<open>2 ^ 31\<close>, that is when it is shorter than 46341 pixels: then none of the \<open>int32\<close>
  results in the computation of its length wraps around.
\<close>

definition short_of_wrap :: "line \<Rightarrow> bool" where
  "short_of_wrap l = (case l of (x1, y1, x2, y2) \<Rightarrow> (x2 - x1)\<^sup>2 + (y2 - y1)\<^sup>2 < 2 ^ 31)"


text \<open>The \<open>N\<close> newest elements of a list, all of them when there are fewer.\<close>

definition newest :: "int \<Rightarrow> 'a list \<Rightarrow> 'a list" where
  "newest N xs = drop (length xs - nat N) xs"


section \<open>Sample inputs\<close>

text \<open>
  An instance of the capabilities for the examples: the two detectors answer with the
  given circles and lines whatever the frame shows, a drawn circle covers the whole
  frame, and the filters return their input.
\<close>

definition still_cv2 :: "circle3 list list option \<Rightarrow> line list list option \<Rightarrow> cv2" where
  "still_cv2 circles lines =
     \<lparr>cv2_circle = (\<lambda>img centre radius colour aa. map (\<lambda>row. map (\<lambda>_. colour) row) img),
      cv2_medianBlur = (\<lambda>img k. img),
      cv2_threshold = (\<lambda>img t ty. img),
      cv2_adaptiveThreshold = (\<lambda>img. img),
      cv2_GaussianBlur = (\<lambda>img k. img),
      cv2_Canny = (\<lambda>img. img),
      cv2_HoughLinesP = (\<lambda>img m. lines),
      cv2_HoughCircles = (\<lambda>img lo hi. circles)\<rparr>"

text \<open>
  The configuration that the command line gives without options, with both median
  filters switched to a window of one frame.
\<close>

definition sample_config :: config where
  "sample_config =
     \<lparr>calibration = None, min_warn = Some Neg_inf, max_warn = Some Pos_inf,
      warn_interval = 600, warn_no_detections_s = 1800,
      needle_bounds = \<lparr>r_inner_min = 15 / 100, r_inner_max = 6 / 10,
                        r_outer_min = 65 / 100, r_outer_max = 95 / 100\<rparr>,
      threshold = 175, threshold_mode = None, blur_size = 5,
      median_filter_dial_position_N = 1, median_filter_value_N = 1\<rparr>"

text \<open>The sample configuration with a warning for values of 5 and below.\<close>

definition warning_config :: config where
  "warning_config = sample_config\<lparr>min_warn := Some (Finite 5)\<rparr>"


text \<open>A clock on which every reading of an iteration is the same time \<open>t\<close>.\<close>

definition clock_at :: "real \<Rightarrow> clock" where
  "clock_at t =
     \<lparr>now_loop_start = t, now_warn_check = t, now_warn_sent = t, now_detected = t,
      now_silence_check = t, now_interval_check = t, now_silence_sent = t\<rparr>"

section \<open>The conversion of the angle\<close>

text \<open>
  Claim C5.  For a calibration with \<open>max_angle \<noteq> min_angle\<close>, \<open>angle2value\<close> returns
  \<open>min_value + (angle - min_angle) * (max_value - min_value) / (max_angle - min_angle)\<close>:
  \<open>min_value\<close> at \<open>min_angle\<close>, \<open>max_value\<close> at \<open>max_angle\<close>, the middle of the values
  at the middle of the angles, and \<open>5\<close> at 135 degrees on the scale from 0 to 270
  degrees for the values 0 to 10.
\<close>

theorem angle2value_affine:
  assumes "max_angle \<noteq> min_angle"
  shows "angle2value min_angle max_angle min_value max_value angle =
           Inr (min_value + (angle - min_angle) * (max_value - min_value) / (max_angle - min_angle)) \<and>
         angle2value min_angle max_angle min_value max_value min_angle = Inr min_value \<and>
         angle2value min_angle max_angle min_value max_value max_angle = Inr max_value \<and>
         angle2value min_angle max_angle min_value max_value ((min_angle + max_angle) / 2) =
           Inr ((min_value + max_value) / 2) \<and>
         angle2value 0 270 0 10 135 = Inr 5"
proof -
  from assms have nz: "max_angle - min_angle \<noteq> 0" by simp
  have formula: "angle2value min_angle max_angle min_value max_value a =
      Inr (min_value + (a - min_angle) * (max_value - min_value) / (max_angle - min_angle))" for a
    using nz by (simp add: angle2value_def)
  have middle: "min_value + ((min_angle + max_angle) / 2 - min_angle) * (max_value - min_value)
          / (max_angle - min_angle) = (min_value + max_value) / 2"
    using nz by (simp add: field_simps)
  have top: "min_value + (max_angle - min_angle) * (max_value - min_value) / (max_angle - min_angle)
      = max_value"
    using nz by simp
  have scenario: "angle2value 0 270 0 10 135 = Inr 5"
    by (simp add: angle2value_def)
  show ?thesis using formula middle top scenario by simp
qed

theorem angle2value_affine_witness:
  "(315::real) \<noteq> 45 \<and>
   angle2value 45 315 0 6 100 = Inr (11 / 9) \<and>
   angle2value 45 315 0 6 45 = Inr 0 \<and>
   angle2value 45 315 0 6 315 = Inr 6 \<and>
   angle2value 45 315 0 6 180 = Inr 3"
proof -
  have h: "(315::real) \<noteq> 45" by simp
  show ?thesis using angle2value_affine [OF h, of 0 6 100] by simp
qed

text \<open>
  Claim C9.  \<open>angle2value\<close> divides by \<open>max_angle - min_angle\<close> without a guard: with
  all four numbers of the scale given and \<open>max_angle = min_angle\<close> the division is by
  zero and there is no value, and \<open>max_angle \<noteq> min_angle\<close> is exactly what rules the
  error out.
\<close>

theorem angle2value_division_by_zero:
  "(max_angle = min_angle \<longrightarrow>
      angle2value min_angle max_angle min_value max_value angle = Inl ZeroDivisionError) \<and>
   (max_angle \<noteq> min_angle \<longrightarrow>
      (\<exists>v. angle2value min_angle max_angle min_value max_value angle = Inr v))"
  by (simp add: angle2value_def)

theorem angle2value_division_by_zero_witness:
  "angle2value 90 90 0 10 45 = Inl ZeroDivisionError \<and>
   (\<exists>v. angle2value 0 270 0 10 45 = Inr v)"
  using angle2value_division_by_zero [of 90 90 0 10 45]
    angle2value_division_by_zero [of 270 0 0 10 45]
  by simp

section \<open>The geometric filter\<close>

lemma dist_2_pts_euclid: "dist_2_pts x1 y1 x2 y2 = dist (Complex x1 y1) (Complex x2 y2)"
  by (simp add: dist_2_pts_def dist_complex_def cmod_def
      power2_commute [of x1 x2] power2_commute [of y1 y2])

lemma dist_2_pts_centre:
  "dist_2_pts x y (real_of_int xe) (real_of_int ye) = centre_distance x y xe ye"
  by (simp add: dist_2_pts_euclid centre_distance_def)

lemma int32_id: "- (2 ^ 31) \<le> v \<Longrightarrow> v < 2 ^ 31 \<Longrightarrow> int32 v = v"
  by (simp add: int32_def)

lemma abs_le_square: "\<bar>d\<bar> \<le> d\<^sup>2" for d :: int
proof (cases "d = 0")
  case True
  then show ?thesis by simp
next
  case False
  then have "1 \<le> \<bar>d\<bar>" by simp
  then have "\<bar>d\<bar> * 1 \<le> \<bar>d\<bar> * \<bar>d\<bar>" by (intro mult_left_mono) simp_all
  then show ?thesis by (simp add: power2_eq_square)
qed

lemma dist_2_pts_int32_exact:
  assumes "(x2 - x1)\<^sup>2 + (y2 - y1)\<^sup>2 < (2 ^ 31 :: int)"
  shows "dist_2_pts_int32 x1 y1 x2 y2 =
           Some (dist_2_pts (real_of_int x1) (real_of_int y1) (real_of_int x2) (real_of_int y2))"
proof -
  define dx where "dx = x2 - x1"
  define dy where "dy = y2 - y1"
  have sum: "dx\<^sup>2 + dy\<^sup>2 < 2 ^ 31" using assms by (simp add: dx_def dy_def)
  have sx: "0 \<le> dx\<^sup>2" and sy: "0 \<le> dy\<^sup>2" by simp_all
  have bx: "dx\<^sup>2 < 2 ^ 31" and by': "dy\<^sup>2 < 2 ^ 31" using sum sx sy by linarith+
  have ax: "\<bar>dx\<bar> < 2 ^ 31" using abs_le_square [of dx] bx by linarith
  have ay: "\<bar>dy\<bar> < 2 ^ 31" using abs_le_square [of dy] by' by linarith
  have ix: "int32 dx = dx" by (rule int32_id) (use ax in linarith)+
  have iy: "int32 dy = dy" by (rule int32_id) (use ay in linarith)+
  have qx: "int32 (dx\<^sup>2) = dx\<^sup>2" by (rule int32_id) (use sx bx in linarith)+
  have qy: "int32 (dy\<^sup>2) = dy\<^sup>2" by (rule int32_id) (use sy by' in linarith)+
  have s: "int32 (dx\<^sup>2 + dy\<^sup>2) = dx\<^sup>2 + dy\<^sup>2"
    by (rule int32_id) (use sx sy sum in linarith)+
  have nn: "\<not> dx\<^sup>2 + dy\<^sup>2 < 0" using sx sy by linarith
  have "dist_2_pts_int32 x1 y1 x2 y2 = Some (sqrt (real_of_int (dx\<^sup>2 + dy\<^sup>2)))"
    unfolding dist_2_pts_int32_def dx_def [symmetric] dy_def [symmetric] ix iy qx qy s Let_def
    by (simp only: nn if_False)
  also have "real_of_int (dx\<^sup>2 + dy\<^sup>2) =
      (real_of_int x2 - real_of_int x1)\<^sup>2 + (real_of_int y2 - real_of_int y1)\<^sup>2"
    by (simp add: dx_def dy_def)
  finally show ?thesis by (simp add: dist_2_pts_def)
qed

lemma short_of_wrap_length: "short_of_wrap l \<Longrightarrow> line_length l = Some (pixel_length l)"
  by (cases l)
     (simp add: short_of_wrap_def line_length_def pixel_length_def dist_2_pts_int32_exact
        dist_2_pts_euclid)

text \<open>The test of the bands in \<open>filter_line\<close>, in the distances of the specification.\<close>

lemma filter_line_bands:
  "filter_line x y r min_length b (x1, y1, x2, y2) acc =
     (if (case line_length (x1, y1, x2, y2) of None \<Rightarrow> True | Some v \<Rightarrow> min_length * r \<le> v) \<and>
         r_inner_min b * r < min (centre_distance x y x1 y1) (centre_distance x y x2 y2) \<and>
         min (centre_distance x y x1 y1) (centre_distance x y x2 y2) < r_inner_max b * r \<and>
         r_outer_min b * r < max (centre_distance x y x1 y1) (centre_distance x y x2 y2) \<and>
         max (centre_distance x y x1 y1) (centre_distance x y x2 y2) < r_outer_max b * r
      then acc @ [(x1, y1, x2, y2)] else acc)"
  by (auto simp: filter_line_def line_length_def dist_2_pts_centre Let_def min_def max_def
           split: option.splits)

lemma filter_line_qualifies:
  "short_of_wrap l \<Longrightarrow>
   filter_line x y r min_length b l acc =
     (if qualifies x y r min_length b l then acc @ [l] else acc)"
  by (cases l) (auto simp: filter_line_bands short_of_wrap_length qualifies_def Let_def)

lemma fold_filter_line:
  "\<forall>l \<in> set row. short_of_wrap l \<Longrightarrow>
   fold (filter_line x y r min_length b) row acc = acc @ filter (qualifies x y r min_length b) row"
  by (induction row arbitrary: acc) (simp_all add: filter_line_qualifies)

lemma fold_filter_rows:
  "\<forall>l \<in> set (concat lines). short_of_wrap l \<Longrightarrow>
   fold (\<lambda>row acc. fold (filter_line x y r min_length b) row acc) lines acc
     = acc @ filter (qualifies x y r min_length b) (concat lines)"
  by (induction lines arbitrary: acc) (simp_all add: fold_filter_line)

lemma filter_lines_eq:
  "\<forall>l \<in> set (concat lines). short_of_wrap l \<Longrightarrow>
   filter_lines_for_needle lines x y r min_length b =
     filter (qualifies x y r min_length b) (concat lines)"
  by (simp add: filter_lines_for_needle_def fold_filter_rows)

text \<open>
  Whatever the lengths: the filter keeps the detected segments that pass the test of
  \<open>filter_line\<close>, in their order.
\<close>

lemma fold_filter_line_code:
  "fold (filter_line x y r min_length b) row acc =
     acc @ filter (\<lambda>l. filter_line x y r min_length b l [] = [l]) row"
proof (induction row arbitrary: acc)
  case Nil
  then show ?case by simp
next
  case (Cons l row)
  obtain x1 y1 x2 y2 where l: "l = (x1, y1, x2, y2)" by (cases l) auto
  have "filter_line x y r min_length b l acc =
      (if filter_line x y r min_length b l [] = [l] then acc @ [l] else acc)"
    unfolding l by (simp add: filter_line_bands)
  then show ?case using Cons.IH by simp
qed

lemma filter_lines_code:
  "filter_lines_for_needle lines x y r min_length b =
     filter (\<lambda>l. filter_line x y r min_length b l [] = [l]) (concat lines)"
proof -
  have "fold (\<lambda>row acc. fold (filter_line x y r min_length b) row acc) lines acc =
      acc @ filter (\<lambda>l. filter_line x y r min_length b l [] = [l]) (concat lines)" for acc
    by (induction lines arbitrary: acc) (simp_all add: fold_filter_line_code)
  then show ?thesis by (simp add: filter_lines_for_needle_def)
qed

lemma filter_lines_member:
  "l \<in> set (filter_lines_for_needle lines x y r min_length b) \<longleftrightarrow>
     l \<in> set (concat lines) \<and> filter_line x y r min_length b l [] = [l]"
  by (simp add: filter_lines_code)

lemma centre_distance_below: "centre_distance x y xe ye = \<bar>real_of_int ye - y\<bar>" if "x = real_of_int xe"
  using that by (simp add: centre_distance_def dist_complex_def cmod_def)

lemma centre_distance_beside: "centre_distance x y xe ye = \<bar>real_of_int xe - x\<bar>" if "y = real_of_int ye"
  using that by (simp add: centre_distance_def dist_complex_def cmod_def)

lemma pixel_length_upright: "pixel_length (x1, y1, x1, y2) = \<bar>real_of_int y2 - real_of_int y1\<bar>"
  by (simp add: pixel_length_def dist_complex_def cmod_def abs_minus_commute)


lemma qualifies_down:
  "qualifies 0 0 10 (2 / 10) (needle_bounds sample_config) (0, 2, 0, 8)"
  by (simp add: qualifies_def pixel_length_upright centre_distance_below sample_config_def)






section \<open>The angle of the needle\<close>




lemma line_angle_down: "line_angle 0 0 (0, 2, 0, 8) = 0"
  by (simp add: line_angle_def dist_2_pts_centre centre_distance_below arctan2_def)


lemma line_angle_swap_distinct:
  assumes "centre_distance x y x1 y1 \<noteq> centre_distance x y x2 y2"
  shows "line_angle x y (x1, y1, x2, y2) = line_angle x y (x2, y2, x1, y1)"
  using assms by (auto simp: line_angle_def dist_2_pts_centre Let_def)

lemma candidate_distances_differ:
  assumes c: "(x1, y1, x2, y2) \<in> set (filter_lines_for_needle lines x y r min_length b)"
    and r: "0 \<le> r" and bands: "r_inner_max b \<le> r_outer_min b"
  shows "centre_distance x y x1 y1 \<noteq> centre_distance x y x2 y2"
proof -
  from c have "filter_line x y r min_length b (x1, y1, x2, y2) [] = [(x1, y1, x2, y2)]"
    by (simp add: filter_lines_member)
  then have
    lo: "min (centre_distance x y x1 y1) (centre_distance x y x2 y2) < r_inner_max b * r" and
    hi: "r_outer_min b * r < max (centre_distance x y x1 y1) (centre_distance x y x2 y2)"
    by (simp_all add: filter_line_bands split: if_splits)
  have "r_inner_max b * r \<le> r_outer_min b * r"
    using bands r by (rule mult_right_mono)
  with lo hi have "min (centre_distance x y x1 y1) (centre_distance x y x2 y2) <
      max (centre_distance x y x1 y1) (centre_distance x y x2 y2)"
    by linarith
  then show ?thesis by auto
qed

lemma filter_down:
  "filter_lines_for_needle [[(0, 2, 0, 8)]] 0 0 10 (2 / 10) (needle_bounds sample_config) = [(0, 2, 0, 8)]"
  using qualifies_down by (simp add: filter_lines_eq short_of_wrap_def)

text \<open>
  Claim C2, as the code has it.  The angle of a segment does not depend on the order of
  its end points when the two end points are at different distances from the centre.
  Every segment that passes the filter for a radius \<open>r \<ge> 0\<close> and bands that do not
  overlap (\<open>r_inner_max \<le> r_outer_min\<close>) is such a segment.  With both end points at the
  same distance the second one gives the direction, so the order can change the angle.
\<close>

theorem line_angle_swap:
  "(centre_distance x y x1 y1 \<noteq> centre_distance x y x2 y2 \<longrightarrow>
      line_angle x y (x1, y1, x2, y2) = line_angle x y (x2, y2, x1, y1)) \<and>
   ((x1, y1, x2, y2) \<in> set (filter_lines_for_needle lines x y r min_length b) \<and>
    0 \<le> r \<and> r_inner_max b \<le> r_outer_min b \<longrightarrow>
      centre_distance x y x1 y1 \<noteq> centre_distance x y x2 y2 \<and>
      line_angle x y (x1, y1, x2, y2) = line_angle x y (x2, y2, x1, y1))"
proof -
  have a: "line_angle x y (x1, y1, x2, y2) = line_angle x y (x2, y2, x1, y1)"
    if "centre_distance x y x1 y1 \<noteq> centre_distance x y x2 y2"
    using that by (rule line_angle_swap_distinct)
  have b: "centre_distance x y x1 y1 \<noteq> centre_distance x y x2 y2"
    if "(x1, y1, x2, y2) \<in> set (filter_lines_for_needle lines x y r min_length b) \<and>
        0 \<le> r \<and> r_inner_max b \<le> r_outer_min b"
    by (rule candidate_distances_differ [of x1 y1 x2 y2 lines x y r min_length b])
       (use that in simp_all)
  show ?thesis using a b by blast
qed

theorem line_angle_swap_witness:
  "centre_distance 0 0 0 2 \<noteq> centre_distance 0 0 0 8 \<and>
   (0, 2, 0, 8) \<in> set (filter_lines_for_needle [[(0, 2, 0, 8)]] 0 0 10 (2 / 10)
                        (needle_bounds sample_config)) \<and>
   (0 :: real) \<le> 10 \<and>
   r_inner_max (needle_bounds sample_config) \<le> r_outer_min (needle_bounds sample_config) \<and>
   line_angle 0 0 (0, 2, 0, 8) = line_angle 0 0 (0, 8, 0, 2)"
proof -
  have h: "centre_distance 0 0 0 2 \<noteq> centre_distance 0 0 0 8"
    by (simp add: centre_distance_below)
  have c: "(0, 2, 0, 8) \<in> set (filter_lines_for_needle [[(0, 2, 0, 8)]] 0 0 10 (2 / 10)
                        (needle_bounds sample_config))"
    unfolding filter_down by simp
  have bands: "r_inner_max (needle_bounds sample_config) \<le> r_outer_min (needle_bounds sample_config)"
    by (simp add: sample_config_def)
  have "line_angle 0 0 (0, 2, 0, 8) = line_angle 0 0 (0, 8, 0, 2)"
    using line_angle_swap [of 0 0 0 2 0 8 "[[(0, 2, 0, 8)]]" 10 "2 / 10"
        "needle_bounds sample_config"] h c bands
    by simp
  then show ?thesis using h c bands by simp
qed

text \<open>
  The claim as written also covers end points at the same distance.  It fails there.
  With the bands \<open>(0.15, 0.9)\<close> and \<open>(0.5, 0.95)\<close>, which overlap and which the command
  line accepts, a dial of radius 10 around \<open>(0, 0)\<close> has the candidate from \<open>(7, 0)\<close> to
  \<open>(0, 7)\<close>.  Its angle is \<open>0\<close>, and the angle of the same segment from \<open>(0, 7)\<close> to
  \<open>(7, 0)\<close> is \<open>3 pi / 2\<close>.
\<close>

theorem line_angle_swap_counterexample:
  "filter_lines_for_needle [[(7, 0, 0, 7)]] 0 0 10 (2 / 10)
     \<lparr>r_inner_min = 15 / 100, r_inner_max = 9 / 10, r_outer_min = 5 / 10, r_outer_max = 95 / 100\<rparr>
     = [(7, 0, 0, 7)] \<and>
   centre_distance 0 0 7 0 = centre_distance 0 0 0 7 \<and>
   line_angle 0 0 (7, 0, 0, 7) = 0 \<and>
   line_angle 0 0 (0, 7, 7, 0) = 3 * pi / 2 \<and>
   line_angle 0 0 (7, 0, 0, 7) \<noteq> line_angle 0 0 (0, 7, 7, 0)"
proof -
  have d: "centre_distance 0 0 7 0 = 7" "centre_distance 0 0 0 7 = 7"
    by (simp_all add: centre_distance_below centre_distance_beside)
  have "(2::real)\<^sup>2 \<le> 98" by simp
  then have "2 \<le> sqrt 98" by (rule real_le_rsqrt)
  then have len: "2 \<le> pixel_length (7, 0, 0, 7)"
    by (simp add: pixel_length_def dist_complex_def cmod_def)
  have q: "qualifies 0 0 10 (2 / 10)
     \<lparr>r_inner_min = 15 / 100, r_inner_max = 9 / 10, r_outer_min = 5 / 10, r_outer_max = 95 / 100\<rparr>
     (7, 0, 0, 7)"
    using len by (simp add: qualifies_def d)
  have f: "filter_lines_for_needle [[(7, 0, 0, 7)]] 0 0 10 (2 / 10)
     \<lparr>r_inner_min = 15 / 100, r_inner_max = 9 / 10, r_outer_min = 5 / 10, r_outer_max = 95 / 100\<rparr>
     = [(7, 0, 0, 7)]"
    using q by (simp add: filter_lines_eq short_of_wrap_def)
  have a: "line_angle 0 0 (7, 0, 0, 7) = 0"
    by (simp add: line_angle_def dist_2_pts_centre d arctan2_def)
  have b: "line_angle 0 0 (0, 7, 7, 0) = 3 * pi / 2"
    by (simp add: line_angle_def dist_2_pts_centre d arctan2_def)
  show ?thesis using pi_gt_zero f by (simp add: a b d)
qed












section \<open>The dial: detection and median filter\<close>

lemma drop_oldest_newest: "0 \<le> N \<Longrightarrow> drop_oldest N xs = Inr (newest N xs)"
proof (induction xs)
  case Nil
  then show ?case by (simp add: newest_def)
next
  case (Cons v vs)
  show ?case
  proof (cases "int (length (v # vs)) > N")
    case True
    with Cons.prems have "nat N \<le> length vs" by simp
    then have "Suc (length vs) - nat N = Suc (length vs - nat N)" by (rule Suc_diff_le)
    then show ?thesis using True Cons by (simp add: newest_def)
  next
    case False
    then have "Suc (length vs) \<le> nat N" by simp
    then have "Suc (length vs) - nat N = 0" by simp
    then show ?thesis using False by (simp add: newest_def)
  qed
qed





lemma np_median_single: "np_median [v] = Some v"
  by (simp add: np_median_def)







lemma watchdog_keeps:
  "values_lst (fst (watchdog cfg clk s)) = values_lst s \<and>
   last_successful_detection_time (fst (watchdog cfg clk s)) = last_successful_detection_time s \<and>
   debug_export_number (fst (watchdog cfg clk s)) = debug_export_number s \<and>
   calibration_lst (fst (watchdog cfg clk s)) = calibration_lst s"
  by (simp add: watchdog_def)

lemma find_circles_still: "find_circles (still_cv2 circles lines) gray uf bsize dmin dmax = circles"
  by (simp add: find_circles_def still_cv2_def Let_def split: prod.splits)

lemma detect_dial_no_dial:
  "detect_dial caps gray uf bsize dmin dmax = Inr No_dial \<longleftrightarrow>
     find_circles caps gray uf bsize dmin dmax = None \<or>
     find_circles caps gray uf bsize dmin dmax = Some []"
  by (auto simp: detect_dial_def split: option.splits list.splits prod.splits)

lemma frame_no_dial:
  assumes "detect_dial caps (load st g) True 5 (4 / 10) (9 / 10) = Inr No_dial"
  shows "\<exists>s' sent. frame caps cfg clk st g s = Inr (s', st, Failed No_circles_found, sent)"
  using assms by (simp add: frame_def try_body_def split: prod.splits)

text \<open>
  Claim C8.  When the circle detector returns \<open>k \<ge> 1\<close> circles, \<open>detect_dial\<close>
  returns the arithmetic mean of their \<open>x\<close>, of their \<open>y\<close> and of their \<open>r\<close>.  It
  returns \<open>None\<close> three times exactly when the detector returns no circle, be it as
  \<open>None\<close> or as an empty array, and the iteration of the main loop then ends in the
  \<open>DetectionError\<close> that no circles were found.
\<close>

theorem detect_dial_mean:
  "(find_circles caps gray uf bsize dmin dmax = Some [c # cs] \<longrightarrow>
      detect_dial caps gray uf bsize dmin dmax =
        Inr (Dial (sum_list (map fst (c # cs)) / real (length (c # cs)),
                   sum_list (map (\<lambda>c. fst (snd c)) (c # cs)) / real (length (c # cs)),
                   sum_list (map (\<lambda>c. snd (snd c)) (c # cs)) / real (length (c # cs))))) \<and>
   (detect_dial caps gray uf bsize dmin dmax = Inr No_dial \<longleftrightarrow>
      find_circles caps gray uf bsize dmin dmax = None \<or>
      find_circles caps gray uf bsize dmin dmax = Some []) \<and>
   (find_circles caps (load st g) True 5 (4 / 10) (9 / 10) = None \<or>
    find_circles caps (load st g) True 5 (4 / 10) (9 / 10) = Some [] \<longrightarrow>
      (\<exists>s' sent. frame caps cfg clk st g s = Inr (s', st, Failed No_circles_found, sent)))"
proof -
  have mean: "detect_dial caps gray uf bsize dmin dmax =
        Inr (Dial (sum_list (map fst (c # cs)) / real (length (c # cs)),
                   sum_list (map (\<lambda>c. fst (snd c)) (c # cs)) / real (length (c # cs)),
                   sum_list (map (\<lambda>c. snd (snd c)) (c # cs)) / real (length (c # cs))))"
    if "find_circles caps gray uf bsize dmin dmax = Some [c # cs]"
    using that by (simp add: detect_dial_def np_mean_def)
  have none: "\<exists>s' sent. frame caps cfg clk st g s = Inr (s', st, Failed No_circles_found, sent)"
    if "find_circles caps (load st g) True 5 (4 / 10) (9 / 10) = None \<or>
        find_circles caps (load st g) True 5 (4 / 10) (9 / 10) = Some []"
    by (rule frame_no_dial) (use that detect_dial_no_dial in blast)
  show ?thesis
    by (intro conjI impI detect_dial_no_dial) (erule mean, erule none)
qed

theorem detect_dial_mean_witness:
  "detect_dial (still_cv2 (Some [[(10, 20, 30), (20, 40, 50)]]) None) [[0]] True 5 (4 / 10) (9 / 10)
     = Inr (Dial (15, 30, 40)) \<and>
   detect_dial (still_cv2 None None) [[0]] True 5 (4 / 10) (9 / 10) = Inr No_dial \<and>
   detect_dial (still_cv2 (Some []) None) [[0]] True 5 (4 / 10) (9 / 10) = Inr No_dial \<and>
   (\<exists>s' sent. frame (still_cv2 None None) sample_config (clock_at 100) [[[0]]] 0
       (init sample_config 0 0) = Inr (s', [[[0]]], Failed No_circles_found, sent)) \<and>
   (\<exists>s' sent. frame (still_cv2 (Some []) None) sample_config (clock_at 100) [[[0]]] 0
       (init sample_config 0 0) = Inr (s', [[[0]]], Failed No_circles_found, sent))"
  using detect_dial_mean [of "still_cv2 (Some [[(10, 20, 30), (20, 40, 50)]]) None" "[[0]]" True 5
      "4 / 10" "9 / 10" "(10, 20, 30)" "[(20, 40, 50)]"]
    detect_dial_mean [of "still_cv2 None None" "[[0]]" True 5 "4 / 10" "9 / 10" _ _
      "[[[0]]]" 0 sample_config "clock_at 100" "init sample_config 0 0"]
    detect_dial_mean [of "still_cv2 (Some []) None" "[[0]]" True 5 "4 / 10" "9 / 10" _ _
      "[[[0]]]" 0 sample_config "clock_at 100" "init sample_config 0 0"]
  by (simp add: find_circles_still load_def)

section \<open>The frame that \<open>get_needle_angle\<close> is given\<close>

lemma apply_threshold_old:
  "a < length st \<Longrightarrow> load (fst (apply_threshold caps st g mode thr bsize)) a = load st a"
  by (auto simp: apply_threshold_def alloc_def load_def nth_append split: prod.splits)

lemma apply_threshold_length:
  "length st \<le> length (fst (apply_threshold caps st g mode thr bsize))"
  by (auto simp: apply_threshold_def alloc_def split: prod.splits)

lemma apply_threshold_addr:
  "g < length st \<Longrightarrow>
   snd (apply_threshold caps st g mode thr bsize) < length (fst (apply_threshold caps st g mode thr bsize))"
  by (auto simp: apply_threshold_def alloc_def split: prod.splits)

lemma apply_threshold_fresh:
  "snd (apply_threshold caps st g mode thr bsize) = g \<or>
   length st \<le> snd (apply_threshold caps st g mode thr bsize)"
  by (auto simp: apply_threshold_def alloc_def split: prod.splits)

lemma get_needle_angle_store:
  assumes g: "gray < length st"
  shows "case get_needle_angle caps st gray x y r thr uf bsize mll mode b of
           (st', status, after_threshold) \<Rightarrow>
             load st' gray =
               cv2_circle caps (load st gray) (py_int x, py_int y) (py_int (r * r_inner_min b)) 255 True \<and>
             (\<forall>a < length st. a \<noteq> gray \<longrightarrow> load st' a = load st a) \<and>
             length st + 2 \<le> length st' \<and>
             load st' (length st) =
               cv2_circle caps (ones_like_255 (load st' gray)) (py_int x, py_int y)
                 (py_int (r * r_outer_max b)) 0 False \<and>
             load st' (Suc (length st)) = bitwise_or (load st' gray) (load st' (length st)) \<and>
             length st < after_threshold \<and> after_threshold < length st'"
proof -
  define st1 where
    "st1 = st[gray := cv2_circle caps (load st gray) (py_int x, py_int y) (py_int (r * r_inner_min b)) 255 True]"
  define st2 where "st2 = st1 @ [ones_like_255 (load st1 gray)]"
  define st3 where
    "st3 = st2[length st1 := cv2_circle caps (load st2 (length st1)) (py_int x, py_int y)
                               (py_int (r * r_outer_max b)) 0 False]"
  define st4 where "st4 = st3 @ [bitwise_or (load st3 gray) (load st3 (length st1))]"
  define thr_res where "thr_res = apply_threshold caps st4 (length st3) mode thr bsize"
  define st8 where "st8 = (if uf
       then (case alloc (fst thr_res) (cv2_medianBlur caps (load (fst thr_res) (snd thr_res)) bsize) of
               (st6, gray3) \<Rightarrow>
             case alloc st6 (cv2_Canny caps (load st6 gray3)) of
               (st7, gray4) \<Rightarrow>
             alloc st7 (cv2_GaussianBlur caps (load st7 gray4) bsize))
       else thr_res)"
  have eq: "get_needle_angle caps st gray x y r thr uf bsize mll mode b =
      (fst st8, needle_angle_of_lines (cv2_HoughLinesP caps (load (fst st8) (snd st8)) mll) x y r b,
       snd thr_res)"
    unfolding get_needle_angle_def Let_def alloc_def st1_def [symmetric]
    by (simp add: st8_def thr_res_def st4_def st3_def st2_def alloc_def split: prod.splits)
  have l1: "length st1 = length st" by (simp add: st1_def)
  have l4: "length st4 = length st + 2" by (simp add: st4_def st3_def st2_def l1)
  have g1: "load st1 gray =
      cv2_circle caps (load st gray) (py_int x, py_int y) (py_int (r * r_inner_min b)) 255 True"
    using g by (simp add: st1_def load_def)
  have o1: "load st1 a = load st a" if "a \<noteq> gray" for a
    using that by (simp add: st1_def load_def)
  have k4: "load st4 a = load st1 a" if "a < length st" for a
    using that by (simp add: st4_def st3_def st2_def l1 load_def nth_append)
  have m4: "load st4 (length st) =
      cv2_circle caps (ones_like_255 (load st1 gray)) (py_int x, py_int y) (py_int (r * r_outer_max b)) 0 False"
    by (simp add: st4_def st3_def st2_def l1 load_def nth_append)
  have m3: "load st3 (length st1) = load st4 (length st)"
    by (simp add: st4_def st3_def st2_def l1 load_def nth_append)
  have g3: "load st3 gray = load st1 gray"
    using g by (simp add: st3_def st2_def l1 load_def nth_append)
  have b4: "load st4 (Suc (length st)) = bitwise_or (load st1 gray) (load st4 (length st))"
    using m3 g3 by (simp add: st4_def load_def nth_append) (simp add: st3_def st2_def l1)
  have thr_old: "load (fst thr_res) a = load st4 a" if "a < length st4" for a
    using that by (simp add: thr_res_def apply_threshold_old)
  have thr_len: "length st4 \<le> length (fst thr_res)"
    by (simp add: thr_res_def apply_threshold_length)
  have thr_addr: "snd thr_res < length (fst thr_res)"
    unfolding thr_res_def by (rule apply_threshold_addr) (simp add: st4_def)
  have thr_fresh: "length st < snd thr_res"
    using apply_threshold_fresh [of caps st4 "length st3" mode thr bsize] l4
    by (auto simp: thr_res_def st3_def st2_def l1)
  have s8_old: "load (fst st8) a = load (fst thr_res) a" if "a < length (fst thr_res)" for a
    using that by (auto simp: st8_def alloc_def load_def nth_append split: prod.splits)
  have s8_len: "length (fst thr_res) \<le> length (fst st8)"
    by (auto simp: st8_def alloc_def split: prod.splits)
  have old: "load (fst st8) a = load st1 a" if "a < length st" for a
    using that s8_old [of a] thr_old [of a] k4 [of a] thr_len l4 by simp
  have c1: "load (fst st8) gray =
      cv2_circle caps (load st gray) (py_int x, py_int y) (py_int (r * r_inner_min b)) 255 True"
    using old [OF g] g1 by simp
  have c2: "\<forall>a < length st. a \<noteq> gray \<longrightarrow> load (fst st8) a = load st a"
    using old o1 by simp
  have c3: "length st + 2 \<le> length (fst st8)"
    using s8_len thr_len l4 by simp
  have c4: "load (fst st8) (length st) =
      cv2_circle caps (ones_like_255 (load (fst st8) gray)) (py_int x, py_int y)
        (py_int (r * r_outer_max b)) 0 False"
    using s8_old [of "length st"] thr_old [of "length st"] thr_len l4 m4 c1 g1 by simp
  have c5: "load (fst st8) (Suc (length st)) =
      bitwise_or (load (fst st8) gray) (load (fst st8) (length st))"
    using s8_old [of "Suc (length st)"] thr_old [of "Suc (length st)"]
      s8_old [of "length st"] thr_old [of "length st"] thr_len l4 b4 c1 g1 by simp
  have c6: "length st < snd thr_res \<and> snd thr_res < length (fst st8)"
    using thr_fresh thr_addr s8_len by simp
  show ?thesis
    unfolding eq using c1 c2 c3 c4 c5 c6 by simp
qed

text \<open>
  Claim C10, as the code has it.  \<open>get_needle_angle\<close> writes into the array it is given:
  after every call the caller's array is what \<open>cv2.circle\<close> leaves of it when it draws
  the filled disk of radius \<open>int(r * r_inner_min)\<close> around \<open>(int(x), int(y))\<close> in the value
  255.  So the frame differs from what it was exactly when that drawing changes a pixel
  of it, and is as it was when the disk was 255 before.  No other array of the caller
  changes.  The mask of the outer region is a new array, it is or-ed with the frame
  into another new array, and the image after thresholding that is returned is not the
  caller's array either.
\<close>

theorem get_needle_angle_mutates_input:
  assumes "gray < length st"
  shows "case get_needle_angle caps st gray x y r thr uf bsize mll mode b of
           (st', status, after_threshold) \<Rightarrow>
             load st' gray =
               cv2_circle caps (load st gray) (py_int x, py_int y) (py_int (r * r_inner_min b)) 255 True \<and>
             (load st' gray = load st gray \<longleftrightarrow>
                cv2_circle caps (load st gray) (py_int x, py_int y) (py_int (r * r_inner_min b)) 255 True
                  = load st gray) \<and>
             (\<forall>a < length st. a \<noteq> gray \<longrightarrow> load st' a = load st a) \<and>
             length st + 2 \<le> length st' \<and>
             load st' (length st) =
               cv2_circle caps (ones_like_255 (load st' gray)) (py_int x, py_int y)
                 (py_int (r * r_outer_max b)) 0 False \<and>
             load st' (Suc (length st)) = bitwise_or (load st' gray) (load st' (length st)) \<and>
             length st < after_threshold \<and> after_threshold < length st' \<and>
             after_threshold \<noteq> gray"
  using get_needle_angle_store [OF assms, where caps = caps and x = x and y = y and r = r
      and b = b and thr = thr and uf = uf and bsize = bsize and mll = mll and mode = mode] assms
  by (auto split: prod.splits)

theorem get_needle_angle_mutates_input_witness:
  "(0::nat) < length [[[0, 7 :: 8 word]]] \<and>
   load (fst (get_needle_angle (still_cv2 None None) [[[0, 7]]] 0 0 0 10 175 False 5 10 None
                (needle_bounds sample_config))) 0 = [[255, 255]] \<and>
   load [[[0, 7 :: 8 word]]] 0 = [[0, 7]]"
proof -
  have h: "(0::nat) < length [[[0, 7 :: 8 word]]]" by simp
  obtain st' status a where
    eq: "get_needle_angle (still_cv2 None None) [[[0, 7]]] 0 0 0 10 175 False 5 10 None
           (needle_bounds sample_config) = (st', status, a)"
    by (cases "get_needle_angle (still_cv2 None None) [[[0, 7]]] 0 0 0 10 175 False 5 10 None
           (needle_bounds sample_config)") auto
  have "load st' 0 = [[255, 255]]"
    using get_needle_angle_mutates_input [OF h, where caps = "still_cv2 None None" and x = 0
        and y = 0 and r = 10 and thr = 175 and uf = False and bsize = 5 and mll = 10
        and mode = None and b = "needle_bounds sample_config"]
    unfolding eq by (simp add: still_cv2_def load_def)
  then show ?thesis unfolding eq by (simp add: load_def)
qed

text \<open>
  The claim as written has the frame changed by every call.  A frame that is 255 all
  over the disk is not: on the frame of two pixels that are both 255, the drawing
  leaves every pixel at 255, and the caller's array after the call is the array before
  it.
\<close>

theorem get_needle_angle_mutates_input_counterexample:
  "load (fst (get_needle_angle (still_cv2 None None) [[[255, 255]]] 0 0 0 10 175 False 5 10 None
                (needle_bounds sample_config))) 0 = [[255, 255]] \<and>
   load [[[255, 255 :: 8 word]]] 0 = [[255, 255]] \<and>
   cv2_circle (still_cv2 None None) [[255, 255]] (py_int 0, py_int 0)
     (py_int (10 * r_inner_min (needle_bounds sample_config))) 255 True = [[255, 255]]"
proof -
  have h: "(0::nat) < length [[[255, 255 :: 8 word]]]" by simp
  obtain st' status a where
    eq: "get_needle_angle (still_cv2 None None) [[[255, 255]]] 0 0 0 10 175 False 5 10 None
           (needle_bounds sample_config) = (st', status, a)"
    by (cases "get_needle_angle (still_cv2 None None) [[[255, 255]]] 0 0 0 10 175 False 5 10 None
           (needle_bounds sample_config)") auto
  have "load st' 0 = [[255, 255]]"
    using get_needle_angle_store [OF h, where caps = "still_cv2 None None" and x = 0
        and y = 0 and r = 10 and thr = 175 and uf = False and bsize = 5 and mll = 10
        and mode = None and b = "needle_bounds sample_config"]
    unfolding eq by (simp add: still_cv2_def load_def)
  then show ?thesis unfolding eq by (simp add: load_def still_cv2_def)
qed

section \<open>One iteration of the main loop\<close>

lemma try_body_failed:
  assumes "try_body caps cfg clk st g s = (st1, Inr (s1, Inl derr))"
  shows "values_lst s1 = values_lst s \<and>
         last_successful_detection_time s1 = last_successful_detection_time s \<and>
         debug_export_number s1 = debug_export_number s"
  using assms
  by (auto simp: try_body_def Let_def
           split: sum.splits dial_estimate.splits prod.splits option.splits)

lemma try_body_measured:
  assumes "try_body caps cfg clk st g s = (st1, Inr (s1, Inr (v, alerts)))"
  shows "last_successful_detection_time s1 = now_detected clk"
  using assms
  by (auto simp: try_body_def Let_def
           split: sum.splits dial_estimate.splits prod.splits option.splits)

lemma try_body_store:
  assumes "try_body caps cfg clk st g s = (st1, Inr (s1, Inr (v, alerts)))"
  shows "\<exists>sa sb. store_value cfg clk sa v = Inr (sb, alerts) \<and>
           last_warn_time sa = last_warn_time s \<and> values_lst sa = values_lst s \<and>
           last_warn_time s1 = last_warn_time sb \<and> values_lst s1 = values_lst sb"
  using assms
  apply (auto simp: try_body_def Let_def
           split: sum.splits dial_estimate.splits prod.splits option.splits)
   apply (rule exI, rule exI, rule conjI, assumption, simp)+
  done

lemma frame_failed:
  assumes "frame caps cfg clk st g s = Inr (s', st', Failed derr, sent)"
  shows "values_lst s' = values_lst s \<and>
         last_successful_detection_time s' = last_successful_detection_time s \<and>
         debug_export_number s' = (debug_export_number s + 1) mod 10"
proof -
  obtain st1 res where
    tb: "try_body caps cfg clk st g (s\<lparr>loop_start_time := now_loop_start clk\<rparr>) = (st1, res)"
    by (cases "try_body caps cfg clk st g (s\<lparr>loop_start_time := now_loop_start clk\<rparr>)") auto
  from assms tb obtain s1 where
    res: "res = Inr (s1, Inl derr)" and
    s': "s' = fst (watchdog cfg clk
                (s1\<lparr>debug_export_number := (debug_export_number s1 + 1) mod 10\<rparr>))"
    by (auto simp: frame_def split: sum.splits prod.splits)
  have k: "values_lst s1 = values_lst s \<and>
         last_successful_detection_time s1 = last_successful_detection_time s \<and>
         debug_export_number s1 = debug_export_number s"
    using try_body_failed [OF tb [unfolded res]] by simp
  show ?thesis unfolding s' using k by (simp add: watchdog_keeps)
qed

lemma frame_measured_parts:
  assumes "frame caps cfg clk st g s = Inr (s', st', Measured v, sent)"
  shows "\<exists>sa sb s1 alerts. store_value cfg clk sa v = Inr (sb, alerts) \<and>
           last_warn_time sa = last_warn_time s \<and> values_lst sa = values_lst s \<and>
           last_warn_time s1 = last_warn_time sb \<and> values_lst s1 = values_lst sb \<and>
           last_successful_detection_time s1 = now_detected clk \<and>
           s' = fst (watchdog cfg clk s1) \<and> sent = alerts @ snd (watchdog cfg clk s1)"
proof -
  obtain st1 res where
    tb: "try_body caps cfg clk st g (s\<lparr>loop_start_time := now_loop_start clk\<rparr>) = (st1, res)"
    by (cases "try_body caps cfg clk st g (s\<lparr>loop_start_time := now_loop_start clk\<rparr>)") auto
  from assms tb obtain s1 alerts where
    res: "res = Inr (s1, Inr (v, alerts))" and
    s': "s' = fst (watchdog cfg clk s1)" and sent: "sent = alerts @ snd (watchdog cfg clk s1)"
    by (auto simp: frame_def split: sum.splits prod.splits)
  from try_body_store [OF tb [unfolded res]] try_body_measured [OF tb [unfolded res]] s' sent
  show ?thesis by auto
qed

lemma frame_measured:
  assumes "frame caps cfg clk st g s = Inr (s', st', Measured v, sent)"
  shows "last_successful_detection_time s' = now_detected clk"
  using frame_measured_parts [OF assms] by (auto simp: watchdog_keeps)

text \<open>The sample frame: a dial of radius 10 around \<open>(0, 0)\<close>, the needle straight down.\<close>

lemma needle_down:
  "needle_angle_of_lines (Some [[(0, 2, 0, 8)]]) 0 0 10 (needle_bounds sample_config) =
     Inr (Inr (Some 0))"
proof -
  have "line_length (0, 2, 0, 8) = Some 6"
    using short_of_wrap_length [of "(0, 2, 0, 8)"]
    by (simp add: short_of_wrap_def pixel_length_upright)
  then show ?thesis
    unfolding needle_angle_of_lines_def option.case filter_down Let_def
    by (simp add: angle_step_def np_average_def Let_def line_angle_down)
qed

lemma get_needle_angle_still:
  "fst (snd (get_needle_angle (still_cv2 circles lines) st gray x y r thr uf bsize mll mode b)) =
     needle_angle_of_lines lines x y r b"
  by (simp add: get_needle_angle_def still_cv2_def Let_def split: prod.splits)

lemma frame_sample:
  assumes "median_filter_dial_position_N cfg \<le> 1" and "calibration cfg = None"
    and "needle_bounds cfg = needle_bounds sample_config"
  shows "\<exists>st'. frame (still_cv2 (Some [[(0, 0, 10)]]) (Some [[(0, 2, 0, 8)]])) cfg clk st g s =
     (case store_value cfg clk (s\<lparr>loop_start_time := now_loop_start clk\<rparr>) 0 of
        Inl e \<Rightarrow> Inl e
      | Inr (s2, alerts) \<Rightarrow>
          Inr (fst (watchdog cfg clk (s2\<lparr>last_successful_detection_time := now_detected clk\<rparr>)),
               st', Measured 0,
               alerts @ snd (watchdog cfg clk (s2\<lparr>last_successful_detection_time := now_detected clk\<rparr>))))"
proof -
  let ?caps = "still_cv2 (Some [[(0, 0, 10)]]) (Some [[(0, 2, 0, 8)]])"
  have dd: "detect_dial ?caps (load st g) True 5 (4 / 10) (9 / 10) = Inr (Dial (0, 0, 10))"
    by (simp add: detect_dial_def find_circles_still np_mean_def)
  have mf: "median_filter_dial (median_filter_dial_position_N cfg) lst (0, 0, 10) = Inr (lst, (0, 0, 10))" for lst
    using assms(1) by (simp add: median_filter_dial_def)
  obtain st1 status a where
    gn: "get_needle_angle ?caps st g 0 0 10 (threshold cfg) False (blur_size cfg) 10
           (threshold_mode cfg) (needle_bounds cfg) = (st1, status, a)"
    by (cases "get_needle_angle ?caps st g 0 0 10 (threshold cfg) False (blur_size cfg) 10
           (threshold_mode cfg) (needle_bounds cfg)") auto
  have "status = needle_angle_of_lines (Some [[(0, 2, 0, 8)]]) 0 0 10 (needle_bounds cfg)"
    using get_needle_angle_still [of "Some [[(0, 0, 10)]]" "Some [[(0, 2, 0, 8)]]" st g 0 0 10
        "threshold cfg" False "blur_size cfg" 10 "threshold_mode cfg" "needle_bounds cfg"]
    unfolding gn by simp
  then have status: "status = Inr (Inr (Some 0))" by (simp add: assms(3) needle_down)
  have "frame ?caps cfg clk st g s =
     (case store_value cfg clk (s\<lparr>loop_start_time := now_loop_start clk\<rparr>) 0 of
        Inl e \<Rightarrow> Inl e
      | Inr (s2, alerts) \<Rightarrow>
          Inr (fst (watchdog cfg clk (s2\<lparr>last_successful_detection_time := now_detected clk\<rparr>)),
               st1, Measured 0,
               alerts @ snd (watchdog cfg clk (s2\<lparr>last_successful_detection_time := now_detected clk\<rparr>))))"
    unfolding frame_def try_body_def dd
    by (simp add: mf gn status assms(2) split: sum.splits prod.splits)
  then show ?thesis by blast
qed

lemma frame_blind:
  "frame (still_cv2 None None) sample_config (clock_at 100) [[[0]]] 0 (init sample_config 0 0) =
     Inr (init sample_config 0 0\<lparr>loop_start_time := 100, debug_export_number := 1\<rparr>,
          [[[0]]], Failed No_circles_found, [])"
  by (simp add: frame_def try_body_def detect_dial_def find_circles_still watchdog_def
      init_def sample_config_def clock_at_def)

lemma store_value_quiet_sample:
  "store_value sample_config (clock_at 100) (init sample_config 0 0\<lparr>loop_start_time := 100\<rparr>) 0 =
     Inr (init sample_config 0 0\<lparr>loop_start_time := 100, values_lst := [0], avg := Some 0\<rparr>, [])"
  by (simp add: store_value_def init_def sample_config_def clock_at_def np_median_single
      out_of_range_def)

text \<open>
  Claim C1, as the code has it.  An iteration that ends in a \<open>DetectionError\<close>, whichever
  of the four it is, leaves \<open>values_lst\<close> and the silence timer's reference point
  \<open>last_successful_detection_time\<close> as they were and advances the counter modulo 10.
  The reference point is set, to the time of the reset, only in an iteration that
  resolves a needle angle.
\<close>

theorem detection_error_keeps_history_and_timer:
  "(frame caps cfg clk st g s = Inr (s', st', Failed derr, sent) \<longrightarrow>
      values_lst s' = values_lst s \<and>
      last_successful_detection_time s' = last_successful_detection_time s \<and>
      debug_export_number s' = (debug_export_number s + 1) mod 10) \<and>
   (frame caps cfg clk st g s = Inr (s', st', Measured v, sent) \<longrightarrow>
      last_successful_detection_time s' = now_detected clk)"
  using frame_failed frame_measured by blast

theorem detection_error_keeps_history_and_timer_witness:
  "(\<exists>s' st' sent.
      frame (still_cv2 None None) sample_config (clock_at 100) [[[0]]] 0 (init sample_config 0 0) =
        Inr (s', st', Failed No_circles_found, sent) \<and>
      values_lst s' = [] \<and> last_successful_detection_time s' = 0 \<and> debug_export_number s' = 1) \<and>
   (\<exists>s' st' sent.
      frame (still_cv2 (Some [[(0, 0, 10)]]) (Some [[(0, 2, 0, 8)]])) sample_config (clock_at 100)
        [[[0]]] 0 (init sample_config 0 0) = Inr (s', st', Measured 0, sent) \<and>
      last_successful_detection_time s' = 100)"
proof -
  define s1 where "s1 = init sample_config 0 0\<lparr>loop_start_time := 100, values_lst := [0],
      avg := Some 0, last_successful_detection_time := 100\<rparr>"
  define s2 where "s2 = init sample_config 0 0\<lparr>loop_start_time := 100, debug_export_number := 1\<rparr>"
  have wd: "watchdog sample_config (clock_at 100) s1 = (s1, [])"
    by (simp add: watchdog_def s1_def sample_config_def clock_at_def init_def)
  obtain st' where m: "frame (still_cv2 (Some [[(0, 0, 10)]]) (Some [[(0, 2, 0, 8)]])) sample_config
      (clock_at 100) [[[0]]] 0 (init sample_config 0 0) = Inr (s1, st', Measured 0, [])"
  proof -
    have c: "now_loop_start (clock_at 100) = 100" "now_detected (clock_at 100) = 100"
      by (simp_all add: clock_at_def)
    have "median_filter_dial_position_N sample_config \<le> 1" "calibration sample_config = None"
      by (simp_all add: sample_config_def)
    from frame_sample [OF this refl, of "clock_at 100" "[[[0]]]" 0 "init sample_config 0 0"]
    obtain st' where "frame (still_cv2 (Some [[(0, 0, 10)]]) (Some [[(0, 2, 0, 8)]])) sample_config
      (clock_at 100) [[[0]]] 0 (init sample_config 0 0) = Inr (s1, st', Measured 0, [])"
      unfolding c store_value_quiet_sample by (auto simp: wd s1_def [symmetric])
    then show ?thesis by (rule that)
  qed
  have f: "frame (still_cv2 None None) sample_config (clock_at 100) [[[0]]] 0 (init sample_config 0 0) =
      Inr (s2, [[[0]]], Failed No_circles_found, [])"
    unfolding s2_def by (rule frame_blind)
  have a: "values_lst s2 = [] \<and> last_successful_detection_time s2 = 0 \<and> debug_export_number s2 = 1"
    using detection_error_keeps_history_and_timer
      [where caps = "still_cv2 None None" and cfg = sample_config and clk = "clock_at 100"
        and st = "[[[0]]]" and g = 0 and s = "init sample_config 0 0"
        and s' = s2 and st' = "[[[0]]]" and derr = No_circles_found and sent = "[]"] f
    by (simp add: init_def)
  have b: "last_successful_detection_time s1 = 100"
    using detection_error_keeps_history_and_timer
      [where caps = "still_cv2 (Some [[(0, 0, 10)]]) (Some [[(0, 2, 0, 8)]])" and cfg = sample_config
        and clk = "clock_at 100" and st = "[[[0]]]" and g = 0 and s = "init sample_config 0 0"
        and s' = s1 and st' = st' and v = 0 and sent = "[]"] m
    by (simp add: clock_at_def)
  show ?thesis using f m a b by blast
qed

text \<open>
  The claim as written has the \<open>DetectionError\<close> update the reference point.  It does
  not: in an iteration in which no circle is found and every reading of the clock is
  100, the reference point stays at the time 0 at which the loop was entered.
\<close>

theorem detection_error_updates_timer_counterexample:
  "\<exists>s' st' sent.
      frame (still_cv2 None None) sample_config (clock_at 100) [[[0]]] 0 (init sample_config 0 0) =
        Inr (s', st', Failed No_circles_found, sent) \<and>
      last_successful_detection_time (init sample_config 0 0) = 0 \<and>
      now_detected (clock_at 100) = 100 \<and>
      last_successful_detection_time s' = 0"
  using frame_blind by (simp add: init_def clock_at_def)

section \<open>The warning about the value\<close>

lemma out_of_range_set:
  "out_of_range a (Some lo) (Some hi) =
     Inr (\<exists>m. a = Some m \<and> (le_bound m lo \<or> ge_bound m hi))"
  by (cases a) (auto simp: out_of_range_def)

lemma store_value_set:
  assumes lo: "min_warn cfg = Some lo" and hi: "max_warn cfg = Some hi"
    and n: "0 \<le> median_filter_value_N cfg"
  shows "\<exists>s' sent. store_value cfg clk s v = Inr (s', sent) \<and>
     values_lst s' = newest (median_filter_value_N cfg) (values_lst s @ [v]) \<and>
     (sent \<noteq> [] \<longleftrightarrow>
        median_filter_value_N cfg \<le> int (length (values_lst s')) \<and>
        (\<exists>m. np_median (values_lst s') = Some m \<and> (le_bound m lo \<or> ge_bound m hi)) \<and>
        last_warn_time s + warn_interval cfg < now_warn_check clk) \<and>
     (sent \<noteq> [] \<longrightarrow> last_warn_time s' = now_warn_sent clk \<and>
        (\<exists>m. np_median (values_lst s') = Some m \<and> sent = [Value_warning m])) \<and>
     (sent = [] \<longrightarrow> last_warn_time s' = last_warn_time s)"
proof -
  define lst where "lst = newest (median_filter_value_N cfg) (values_lst s @ [v])"
  have d: "drop_oldest (median_filter_value_N cfg) (values_lst s @ [v]) = Inr lst"
    unfolding lst_def by (rule drop_oldest_newest [OF n])
  show ?thesis
  proof (cases "median_filter_value_N cfg \<le> int (length lst) \<and>
                last_warn_time s + warn_interval cfg < now_warn_check clk")
    case False
    then have "store_value cfg clk s v = Inr (s\<lparr>values_lst := lst\<rparr>, [])"
      by (auto simp: store_value_def d Let_def)
    then show ?thesis using False by (auto simp: lst_def)
  next
    case True
    show ?thesis
    proof (cases "\<exists>m. np_median lst = Some m \<and> (le_bound m lo \<or> ge_bound m hi)")
      case False
      then have "out_of_range (np_median lst) (Some lo) (Some hi) = Inr False"
        by (simp add: out_of_range_set)
      then have "store_value cfg clk s v = Inr (s\<lparr>values_lst := lst, avg := np_median lst\<rparr>, [])"
        using True by (simp add: store_value_def d Let_def lo hi)
      then show ?thesis using False by (auto simp: lst_def)
    next
      case out: True
      then obtain m where m: "np_median lst = Some m" "le_bound m lo \<or> ge_bound m hi" by blast
      have "out_of_range (np_median lst) (Some lo) (Some hi) = Inr True"
        using out by (simp add: out_of_range_set)
      then have "store_value cfg clk s v =
          Inr (s\<lparr>values_lst := lst, avg := np_median lst, last_warn_time := now_warn_sent clk\<rparr>,
               [Value_warning m])"
        using True m by (simp add: store_value_def d Let_def lo hi)
      then show ?thesis using True m by (auto simp: lst_def)
    qed
  qed
qed

lemma store_value_quiet:
  assumes "store_value cfg clk s v = Inr (s', sent)"
    and "\<not> last_warn_time s + warn_interval cfg < now_warn_check clk"
  shows "sent = [] \<and> last_warn_time s' = last_warn_time s"
  using assms by (auto simp: store_value_def Let_def split: sum.splits)

lemma store_value_sent:
  assumes "store_value cfg clk s v = Inr (s', sent)"
  shows "(sent = [] \<and> last_warn_time s' = last_warn_time s) \<or>
         (\<exists>m. sent = [Value_warning m] \<and> last_warn_time s' = now_warn_sent clk)"
  using assms
  by (auto simp: store_value_def Let_def out_of_range_def
           split: sum.splits option.splits if_splits bool.splits)

lemma watchdog_quiet:
  "\<not> last_warn_time s + warn_interval cfg < now_interval_check clk \<Longrightarrow>
   snd (watchdog cfg clk s) = [] \<and> last_warn_time (fst (watchdog cfg clk s)) = last_warn_time s"
  by (simp add: watchdog_def)

lemma watchdog_sent: "Value_warning m \<notin> set (snd (watchdog cfg clk s))"
  by (simp add: watchdog_def)

lemma frame_value_warning:
  assumes f: "frame caps cfg clk st g s = Inr (s', st', Measured v, sent)"
    and lo: "min_warn cfg = Some lo" and hi: "max_warn cfg = Some hi"
    and n: "0 \<le> median_filter_value_N cfg"
  shows "values_lst s' = newest (median_filter_value_N cfg) (values_lst s @ [v]) \<and>
     ((\<exists>m. Value_warning m \<in> set sent) \<longleftrightarrow>
        median_filter_value_N cfg \<le> int (length (values_lst s')) \<and>
        (\<exists>m. np_median (values_lst s') = Some m \<and> (le_bound m lo \<or> ge_bound m hi)) \<and>
        last_warn_time s + warn_interval cfg < now_warn_check clk)"
proof -
  from frame_measured_parts [OF f] obtain sa sb sc alerts where
    p: "store_value cfg clk sa v = Inr (sb, alerts)" "last_warn_time sa = last_warn_time s"
       "values_lst sa = values_lst s" "values_lst sc = values_lst sb"
       "s' = fst (watchdog cfg clk sc)" "sent = alerts @ snd (watchdog cfg clk sc)"
    by blast
  from store_value_set [OF lo hi n, of clk sa v] p(1) have
    q: "values_lst sb = newest (median_filter_value_N cfg) (values_lst sa @ [v])"
       "alerts \<noteq> [] \<longleftrightarrow>
          median_filter_value_N cfg \<le> int (length (values_lst sb)) \<and>
          (\<exists>m. np_median (values_lst sb) = Some m \<and> (le_bound m lo \<or> ge_bound m hi)) \<and>
          last_warn_time sa + warn_interval cfg < now_warn_check clk"
    by auto
  have v: "values_lst s' = values_lst sb"
    using p(4) p(5) by (simp add: watchdog_keeps)
  have "(\<exists>m. Value_warning m \<in> set sent) \<longleftrightarrow> alerts \<noteq> []"
    using store_value_sent [OF p(1)] p(6) watchdog_sent [of _ cfg clk sc] by auto
  then show ?thesis using q v p(2) p(3) by simp
qed

lemma two_frames:
  assumes f1: "frame caps1 cfg clk1 st1 g1 s = Inr (s1, st1', Measured v1, sent1)"
    and al: "Value_warning m \<in> set sent1"
    and f2: "frame caps2 cfg clk2 st2 g2 s1 = Inr (s2, st2', Measured v2, sent2)"
    and t1: "now_interval_check clk1 \<le> now_warn_sent clk1 + warn_interval cfg"
    and t2: "now_warn_check clk2 \<le> now_warn_sent clk1 + warn_interval cfg"
    and t3: "now_interval_check clk2 \<le> now_warn_sent clk1 + warn_interval cfg"
  shows "sent1 = [Value_warning m] \<and> sent2 = []"
proof -
  from frame_measured_parts [OF f1] obtain sa sb sc alerts where
    p1: "store_value cfg clk1 sa v1 = Inr (sb, alerts)" "last_warn_time sc = last_warn_time sb"
        "s1 = fst (watchdog cfg clk1 sc)" "sent1 = alerts @ snd (watchdog cfg clk1 sc)"
    by blast
  from al p1(4) watchdog_sent have "Value_warning m \<in> set alerts" by auto
  with store_value_sent [OF p1(1)]
  have a: "alerts = [Value_warning m]" "last_warn_time sb = now_warn_sent clk1"
    by auto
  have q1: "snd (watchdog cfg clk1 sc) = [] \<and>
      last_warn_time (fst (watchdog cfg clk1 sc)) = last_warn_time sc"
    by (rule watchdog_quiet) (use t1 a p1(2) in simp)
  then have r1: "sent1 = [Value_warning m]" and l1: "last_warn_time s1 = now_warn_sent clk1"
    using p1 a by simp_all
  from frame_measured_parts [OF f2] obtain ta tb tc alerts2 where
    p2: "store_value cfg clk2 ta v2 = Inr (tb, alerts2)" "last_warn_time ta = last_warn_time s1"
        "last_warn_time tc = last_warn_time tb"
        "sent2 = alerts2 @ snd (watchdog cfg clk2 tc)"
    by blast
  have q2: "alerts2 = [] \<and> last_warn_time tb = last_warn_time ta"
    by (rule store_value_quiet [OF p2(1)]) (use t2 l1 p2(2) in simp)
  have q3: "snd (watchdog cfg clk2 tc) = [] \<and>
      last_warn_time (fst (watchdog cfg clk2 tc)) = last_warn_time tc"
    by (rule watchdog_quiet) (use t3 l1 p2 q2 in simp)
  show ?thesis using r1 q2 q3 p2(4) by simp
qed

lemma store_value_warning_sample:
  "store_value warning_config (clock_at 100) (init warning_config 0 0\<lparr>loop_start_time := 100\<rparr>) 0 =
     Inr (init warning_config 0 0\<lparr>loop_start_time := 100, values_lst := [0], avg := Some 0,
            last_warn_time := 100\<rparr>, [Value_warning 0])"
  by (simp add: store_value_def init_def warning_config_def sample_config_def clock_at_def
      np_median_single out_of_range_def)

text \<open>
  Claim C6, as the code has it.  With both limits set, an iteration that measures a value
  sends the value warning exactly when the value history is full, its median is at or
  below \<open>min_warn\<close> or at or above \<open>max_warn\<close>, and more than \<open>warn_interval\<close> has
  passed since the last warning (\<open>last_warn_time + warn_interval < now\<close>, a strict
  comparison).  Sending sets the time of the last warning, not sending leaves it.  So
  the warning is limited in rate: after an iteration that has sent it, an iteration whose
  clock has not passed the time of sending plus \<open>warn_interval\<close> sends nothing, whatever
  its median; with \<open>warn_interval = 600\<close> and the second iteration 10 seconds after the
  first, the two iterations send exactly one warning.
\<close>

theorem value_warning_rate_limited:
  "(min_warn cfg = Some lo \<and> max_warn cfg = Some hi \<and> 0 \<le> median_filter_value_N cfg \<longrightarrow>
      (\<exists>s' sent. store_value cfg clk s v = Inr (s', sent) \<and>
         values_lst s' = newest (median_filter_value_N cfg) (values_lst s @ [v]) \<and>
         (sent \<noteq> [] \<longleftrightarrow>
            median_filter_value_N cfg \<le> int (length (values_lst s')) \<and>
            (\<exists>m. np_median (values_lst s') = Some m \<and> (le_bound m lo \<or> ge_bound m hi)) \<and>
            last_warn_time s + warn_interval cfg < now_warn_check clk) \<and>
         (sent \<noteq> [] \<longrightarrow> last_warn_time s' = now_warn_sent clk \<and>
            (\<exists>m. np_median (values_lst s') = Some m \<and> sent = [Value_warning m])) \<and>
         (sent = [] \<longrightarrow> last_warn_time s' = last_warn_time s))) \<and>
   (min_warn cfg = Some lo \<and> max_warn cfg = Some hi \<and> 0 \<le> median_filter_value_N cfg \<and>
    frame caps1 cfg clk1 st1 g1 s = Inr (s1, st1', Measured v1, sent1) \<longrightarrow>
      values_lst s1 = newest (median_filter_value_N cfg) (values_lst s @ [v1]) \<and>
      ((\<exists>m. Value_warning m \<in> set sent1) \<longleftrightarrow>
         median_filter_value_N cfg \<le> int (length (values_lst s1)) \<and>
         (\<exists>m. np_median (values_lst s1) = Some m \<and> (le_bound m lo \<or> ge_bound m hi)) \<and>
         last_warn_time s + warn_interval cfg < now_warn_check clk1)) \<and>
   (frame caps1 cfg clk1 st1 g1 s = Inr (s1, st1', Measured v1, sent1) \<and>
    Value_warning m \<in> set sent1 \<and>
    frame caps2 cfg clk2 st2 g2 s1 = Inr (s2, st2', Measured v2, sent2) \<and>
    now_interval_check clk1 \<le> now_warn_sent clk1 + warn_interval cfg \<and>
    now_warn_check clk2 \<le> now_warn_sent clk1 + warn_interval cfg \<and>
    now_interval_check clk2 \<le> now_warn_sent clk1 + warn_interval cfg \<longrightarrow>
      sent1 = [Value_warning m] \<and> sent2 = []) \<and>
   (warn_interval cfg = 600 \<and>
    frame caps1 cfg (clock_at t) st1 g1 s = Inr (s1, st1', Measured v1, sent1) \<and>
    Value_warning m \<in> set sent1 \<and>
    frame caps2 cfg (clock_at (t + 10)) st2 g2 s1 = Inr (s2, st2', Measured v2, sent2) \<longrightarrow>
      sent1 = [Value_warning m] \<and> sent2 = [])"
proof -
  have block: "\<exists>s' sent. store_value cfg clk s v = Inr (s', sent) \<and>
         values_lst s' = newest (median_filter_value_N cfg) (values_lst s @ [v]) \<and>
         (sent \<noteq> [] \<longleftrightarrow>
            median_filter_value_N cfg \<le> int (length (values_lst s')) \<and>
            (\<exists>m. np_median (values_lst s') = Some m \<and> (le_bound m lo \<or> ge_bound m hi)) \<and>
            last_warn_time s + warn_interval cfg < now_warn_check clk) \<and>
         (sent \<noteq> [] \<longrightarrow> last_warn_time s' = now_warn_sent clk \<and>
            (\<exists>m. np_median (values_lst s') = Some m \<and> sent = [Value_warning m])) \<and>
         (sent = [] \<longrightarrow> last_warn_time s' = last_warn_time s)"
    if "min_warn cfg = Some lo \<and> max_warn cfg = Some hi \<and> 0 \<le> median_filter_value_N cfg"
    using that store_value_set [of cfg lo hi clk s v] by simp
  have iteration: "values_lst s1 = newest (median_filter_value_N cfg) (values_lst s @ [v1]) \<and>
      ((\<exists>m. Value_warning m \<in> set sent1) \<longleftrightarrow>
         median_filter_value_N cfg \<le> int (length (values_lst s1)) \<and>
         (\<exists>m. np_median (values_lst s1) = Some m \<and> (le_bound m lo \<or> ge_bound m hi)) \<and>
         last_warn_time s + warn_interval cfg < now_warn_check clk1)"
    if a: "min_warn cfg = Some lo \<and> max_warn cfg = Some hi \<and> 0 \<le> median_filter_value_N cfg \<and>
      frame caps1 cfg clk1 st1 g1 s = Inr (s1, st1', Measured v1, sent1)"
    by (rule frame_value_warning [of caps1 cfg clk1 st1 g1 s s1 st1' v1 sent1 lo hi])
       (use a in simp_all)
  have two: "sent1 = [Value_warning m] \<and> sent2 = []"
    if a: "frame caps1 cfg clk1 st1 g1 s = Inr (s1, st1', Measured v1, sent1) \<and>
      Value_warning m \<in> set sent1 \<and>
      frame caps2 cfg clk2 st2 g2 s1 = Inr (s2, st2', Measured v2, sent2) \<and>
      now_interval_check clk1 \<le> now_warn_sent clk1 + warn_interval cfg \<and>
      now_warn_check clk2 \<le> now_warn_sent clk1 + warn_interval cfg \<and>
      now_interval_check clk2 \<le> now_warn_sent clk1 + warn_interval cfg"
    by (rule two_frames [of caps1 cfg clk1 st1 g1 s s1 st1' v1 sent1 m caps2 clk2 st2 g2 s2 st2' v2 sent2])
       (use a in simp_all)
  have ten: "sent1 = [Value_warning m] \<and> sent2 = []"
    if a: "warn_interval cfg = 600 \<and>
      frame caps1 cfg (clock_at t) st1 g1 s = Inr (s1, st1', Measured v1, sent1) \<and>
      Value_warning m \<in> set sent1 \<and>
      frame caps2 cfg (clock_at (t + 10)) st2 g2 s1 = Inr (s2, st2', Measured v2, sent2)"
    by (rule two_frames [of caps1 cfg "clock_at t" st1 g1 s s1 st1' v1 sent1 m caps2
          "clock_at (t + 10)" st2 g2 s2 st2' v2 sent2])
       (use a in \<open>simp_all add: clock_at_def\<close>)
  show ?thesis
    apply (rule conjI, rule impI, erule block)
    apply (rule conjI, rule impI, erule iteration)
    apply (rule conjI, rule impI, erule two)
    apply (rule impI, erule ten)
    done
qed

theorem value_warning_rate_limited_witness:
  "(\<exists>s'. store_value warning_config (clock_at 100) (init warning_config 0 0) 0 =
            Inr (s', [Value_warning 0]) \<and>
          last_warn_time s' = 100) \<and>
   (\<exists>s1 st1 s2 st2.
      frame (still_cv2 (Some [[(0, 0, 10)]]) (Some [[(0, 2, 0, 8)]])) warning_config (clock_at 100)
        [[[0]]] 0 (init warning_config 0 0) = Inr (s1, st1, Measured 0, [Value_warning 0]) \<and>
      frame (still_cv2 (Some [[(0, 0, 10)]]) (Some [[(0, 2, 0, 8)]])) warning_config (clock_at 110)
        [[[0]]] 0 s1 = Inr (s2, st2, Measured 0, []))"
proof -
  let ?caps = "still_cv2 (Some [[(0, 0, 10)]]) (Some [[(0, 2, 0, 8)]])"
  have cfg: "min_warn warning_config = Some (Finite 5)" "max_warn warning_config = Some Pos_inf"
    "median_filter_value_N warning_config = 1" "warn_interval warning_config = 600"
    "median_filter_dial_position_N warning_config \<le> 1" "calibration warning_config = None"
    "needle_bounds warning_config = needle_bounds sample_config"
    by (simp_all add: warning_config_def sample_config_def)
  have part1: "\<exists>s'. store_value warning_config (clock_at 100) (init warning_config 0 0) 0 =
            Inr (s', [Value_warning 0]) \<and> last_warn_time s' = 100"
  proof -
    have hyp: "min_warn warning_config = Some (Finite 5) \<and> max_warn warning_config = Some Pos_inf \<and>
        0 \<le> median_filter_value_N warning_config"
      by (simp add: cfg)
    have "\<exists>s' sent. store_value warning_config (clock_at 100) (init warning_config 0 0) 0 = Inr (s', sent) \<and>
         values_lst s' = newest (median_filter_value_N warning_config)
                           (values_lst (init warning_config 0 0) @ [0]) \<and>
         (sent \<noteq> [] \<longleftrightarrow>
            median_filter_value_N warning_config \<le> int (length (values_lst s')) \<and>
            (\<exists>m. np_median (values_lst s') = Some m \<and> (le_bound m (Finite 5) \<or> ge_bound m Pos_inf)) \<and>
            last_warn_time (init warning_config 0 0) + warn_interval warning_config
              < now_warn_check (clock_at 100)) \<and>
         (sent \<noteq> [] \<longrightarrow> last_warn_time s' = now_warn_sent (clock_at 100) \<and>
            (\<exists>m. np_median (values_lst s') = Some m \<and> sent = [Value_warning m])) \<and>
         (sent = [] \<longrightarrow> last_warn_time s' = last_warn_time (init warning_config 0 0))"
      by (rule mp [OF conjunct1 [OF value_warning_rate_limited
          [where cfg = warning_config and lo = "Finite 5" and hi = Pos_inf and clk = "clock_at 100"
            and s = "init warning_config 0 0" and v = 0]] hyp])
    then obtain s' sent where
      sv: "store_value warning_config (clock_at 100) (init warning_config 0 0) 0 = Inr (s', sent)"
      and vl: "values_lst s' = newest (median_filter_value_N warning_config)
                           (values_lst (init warning_config 0 0) @ [0])"
      and iff: "sent \<noteq> [] \<longleftrightarrow>
            median_filter_value_N warning_config \<le> int (length (values_lst s')) \<and>
            (\<exists>m. np_median (values_lst s') = Some m \<and> (le_bound m (Finite 5) \<or> ge_bound m Pos_inf)) \<and>
            last_warn_time (init warning_config 0 0) + warn_interval warning_config
              < now_warn_check (clock_at 100)"
      and yes: "sent \<noteq> [] \<longrightarrow> last_warn_time s' = now_warn_sent (clock_at 100) \<and>
            (\<exists>m. np_median (values_lst s') = Some m \<and> sent = [Value_warning m])"
      by (elim exE conjE)
    have v0: "values_lst s' = [0]"
      using vl by (simp add: init_def newest_def cfg)
    have "sent \<noteq> []"
      unfolding iff v0 by (simp add: np_median_single init_def cfg clock_at_def)
    with yes have "last_warn_time s' = 100" "sent = [Value_warning 0]"
      unfolding v0 by (auto simp: np_median_single clock_at_def)
    with sv show ?thesis by simp
  qed
  define sa where "sa = init warning_config 0 0\<lparr>loop_start_time := 100, values_lst := [0],
      avg := Some 0, last_warn_time := 100, last_successful_detection_time := 100\<rparr>"
  define sb where "sb = init warning_config 0 0\<lparr>loop_start_time := 110, values_lst := [0],
      avg := Some 0, last_warn_time := 100, last_successful_detection_time := 110\<rparr>"
  have wa: "watchdog warning_config (clock_at 100) sa = (sa, [])"
    by (simp add: watchdog_def sa_def warning_config_def sample_config_def clock_at_def init_def)
  have wb: "watchdog warning_config (clock_at 110) sb = (sb, [])"
    by (simp add: watchdog_def sb_def warning_config_def sample_config_def clock_at_def init_def)
  have c: "now_loop_start (clock_at 100) = 100" "now_detected (clock_at 100) = 100"
    "now_loop_start (clock_at 110) = 110" "now_detected (clock_at 110) = 110"
    by (simp_all add: clock_at_def)
  have sv2: "store_value warning_config (clock_at 110) (sa\<lparr>loop_start_time := 110\<rparr>) 0 =
      Inr (sa\<lparr>loop_start_time := 110\<rparr>, [])"
    by (simp add: store_value_def sa_def init_def warning_config_def sample_config_def clock_at_def)
  have sab: "sa\<lparr>loop_start_time := 110, last_successful_detection_time := 110\<rparr> = sb"
    by (simp add: sa_def sb_def init_def)
  from frame_sample [OF cfg(5) cfg(6) cfg(7), of "clock_at 100" "[[[0]]]" 0 "init warning_config 0 0"]
  obtain st1 where f1: "frame ?caps warning_config (clock_at 100) [[[0]]] 0 (init warning_config 0 0) =
      Inr (sa, st1, Measured 0, [Value_warning 0])"
    unfolding c store_value_warning_sample by (auto simp: wa sa_def [symmetric])
  from frame_sample [OF cfg(5) cfg(6) cfg(7), of "clock_at 110" "[[[0]]]" 0 sa]
  obtain st2 where f2: "frame ?caps warning_config (clock_at 110) [[[0]]] 0 sa =
      Inr (sb, st2, Measured 0, [])"
    unfolding c sv2 by (auto simp: sab wb)
  have "[Value_warning 0] = [Value_warning 0] \<and> ([] :: alert list) = []"
    using value_warning_rate_limited
      [where cfg = warning_config and ?caps1.0 = ?caps and t = 100 and ?st1.0 = "[[[0]]]"
        and ?g1.0 = 0 and s = "init warning_config 0 0" and ?s1.0 = sa and st1' = st1
        and ?v1.0 = 0 and ?sent1.0 = "[Value_warning 0]" and m = 0 and ?caps2.0 = ?caps
        and ?st2.0 = "[[[0]]]" and ?g2.0 = 0 and ?s2.0 = sb and st2' = st2 and ?v2.0 = 0
        and ?sent2.0 = "[]"]
      f1 f2 cfg(4)
    by simp
  then show ?thesis using part1 f1 f2 by blast
qed

text \<open>
  The claim as written lets the warning go out once \<open>warn_interval\<close> has passed, the
  boundary included.  On the boundary it does not: the last warning was at time 0,
  \<open>warn_interval\<close> is 600, and the iteration at time 600 measures the value 0, which
  fills the history of one value and is below \<open>min_warn = 5\<close>; nothing is sent.
\<close>

theorem value_warning_rate_limited_counterexample:
  "\<exists>s' st'.
     frame (still_cv2 (Some [[(0, 0, 10)]]) (Some [[(0, 2, 0, 8)]])) warning_config (clock_at 600)
       [[[0]]] 0 (init warning_config 0 0\<lparr>last_warn_time := 0\<rparr>) = Inr (s', st', Measured 0, []) \<and>
     values_lst s' = [0] \<and>
     median_filter_value_N warning_config \<le> int (length (values_lst s')) \<and>
     np_median (values_lst s') = Some 0 \<and>
     min_warn warning_config = Some (Finite 5) \<and> le_bound 0 (Finite 5) \<and>
     warn_interval warning_config = 600 \<and>
     warn_interval warning_config \<le>
       now_warn_check (clock_at 600) - last_warn_time (init warning_config 0 0\<lparr>last_warn_time := 0\<rparr>)"
proof -
  define sa where "sa = init warning_config 0 0\<lparr>last_warn_time := 0, loop_start_time := 600,
      values_lst := [0], last_successful_detection_time := 600\<rparr>"
  have cfg: "median_filter_dial_position_N warning_config \<le> 1" "calibration warning_config = None"
    "needle_bounds warning_config = needle_bounds sample_config"
    by (simp_all add: warning_config_def sample_config_def)
  have c: "now_loop_start (clock_at 600) = 600" "now_detected (clock_at 600) = 600"
    by (simp_all add: clock_at_def)
  have sv: "store_value warning_config (clock_at 600)
      (init warning_config 0 0\<lparr>last_warn_time := 0, loop_start_time := 600\<rparr>) 0 =
      Inr (init warning_config 0 0\<lparr>last_warn_time := 0, loop_start_time := 600, values_lst := [0]\<rparr>, [])"
    by (simp add: store_value_def init_def warning_config_def sample_config_def clock_at_def)
  have wd: "watchdog warning_config (clock_at 600) sa = (sa, [])"
    by (simp add: watchdog_def sa_def warning_config_def sample_config_def clock_at_def init_def)
  from frame_sample [OF cfg, of "clock_at 600" "[[[0]]]" 0 "init warning_config 0 0\<lparr>last_warn_time := 0\<rparr>"]
  obtain st' where "frame (still_cv2 (Some [[(0, 0, 10)]]) (Some [[(0, 2, 0, 8)]])) warning_config
      (clock_at 600) [[[0]]] 0 (init warning_config 0 0\<lparr>last_warn_time := 0\<rparr>) =
      Inr (sa, st', Measured 0, [])"
    unfolding c by (auto simp: sv wd sa_def [symmetric])
  moreover have "values_lst sa = [0]" by (simp add: sa_def)
  ultimately show ?thesis
    by (auto simp: np_median_single warning_config_def sample_config_def clock_at_def init_def)
qed

end
